theory Spec2Isabelle
  imports Main "HOL-Library.Word"
begin

unbundle bit_operations_syntax

section \<open>Errors\<close>

text \<open>
  Go's \<^verbatim>\<open>error\<close> values as one datatype. A Go function returning
  \<^verbatim>\<open>(T, error)\<close> is modelled as a pair whose second component is an
  \<open>error option\<close>, \<open>None\<close> standing for \<^verbatim>\<open>nil\<close>; a pointer or interface result
  is an option too. \<open>Errorf msg e\<close> is \<^verbatim>\<open>fmt.Errorf("msg: %w", e)\<close>.
\<close>

datatype error =
    ErrTimedOut
  | ErrWrongExecutionContext
  | ErrJSHandleDisposed
  | ContextCanceled
  | NotValidKey string string
  | SessionError string
  | MarshalError string
  | Errorf string error

section \<open>Keyboard layouts (package keyboardlayout, used by common/keyboard.go)\<close>

text \<open>
  The package \<^verbatim>\<open>keyboardlayout\<close> is not among the sources; only its uses are. A key definition
  has the fields the keyboard code reads. A layout is taken as a parameter:
  \<open>ValidKeys\<close> (only membership is read), the table \<open>Keys\<close> (an association list,
  read through \<open>map_of\<close> for \<^verbatim>\<open>layout.Keys[key]\<close>; its order is the order in which a
  \<^verbatim>\<open>range\<close> loop visits it), and the two lookups \<^verbatim>\<open>layout.KeyDefinition(key)\<close> and
  \<^verbatim>\<open>layout.ShiftKeyDefinition(key)\<close> that the second revision of the keyboard calls.
\<close>

record KeyDefinition =
  Code :: string
  Key :: string
  KeyCode :: int
  ShiftKey :: string
  ShiftKeyCode :: int
  Text :: string
  Location :: int

definition zeroKeyDefinition :: KeyDefinition where
  "zeroKeyDefinition =
     \<lparr>Code = '''', Key = '''', KeyCode = 0, ShiftKey = '''', ShiftKeyCode = 0,
      Text = '''', Location = 0\<rparr>"

record KeyboardLayout =
  ValidKeys :: "string set"
  Keys :: "(string \<times> KeyDefinition) list"
  KeyDefinition :: "string \<Rightarrow> KeyDefinition \<times> bool"
  ShiftKeyDefinition :: "string \<Rightarrow> KeyDefinition"

section \<open>The keyboard (common/keyboard.go)\<close>

text \<open>
  keyboard.go holds two revisions of the keyboard. The second (from line 291 on) has
  \<^verbatim>\<open>comboPress\<close>, \<^verbatim>\<open>split\<close> and \<^verbatim>\<open>isKeyX\<close>; its functions keep their names here. The
  functions of the first revision (lines 1 to 290) carry the suffix \<open>_r1\<close>.

  The session is the external collaborator that executes a command: it is modelled by
  its answer (an error or none) to a command, given the commands it got before, and
  \<open>dispatched\<close> records every command handed to it, in order.
\<close>

definition ModifierKeyAlt :: "64 word" where "ModifierKeyAlt = 1"

definition ModifierKeyControl :: "64 word" where "ModifierKeyControl = 2"

definition ModifierKeyMeta :: "64 word" where "ModifierKeyMeta = 4"

definition ModifierKeyShift :: "64 word" where "ModifierKeyShift = 8"

datatype KeyType = KeyDown | KeyUp | KeyRawDown | KeyChar

record DispatchKeyEventParams =
  evType :: KeyType
  evModifiers :: "64 word"
  evKey :: string
  evWindowsVirtualKeyCode :: int
  evCode :: string
  evLocation :: int
  evIsKeypad :: bool
  evText :: string
  evUnmodifiedText :: string
  evAutoRepeat :: bool

record Keyboard =
  session :: "DispatchKeyEventParams list \<Rightarrow> DispatchKeyEventParams \<Rightarrow> error option"
  dispatched :: "DispatchKeyEventParams list"
  modifiers :: "64 word"
  pressedKeys :: "int \<rightharpoonup> bool"
  layoutName :: string
  layout :: KeyboardLayout

record KeyboardOptions =
  Delay :: int

text \<open>\<^verbatim>\<open>action.Do(cdp.WithExecutor(k.ctx, k.session))\<close>: the command goes to the session.\<close>

definition Do :: "Keyboard \<Rightarrow> DispatchKeyEventParams \<Rightarrow> Keyboard \<times> error option" where
  "Do k action = (k\<lparr>dispatched := dispatched k @ [action]\<rparr>, session k (dispatched k) action)"

definition modifierBitFromKeyName :: "string \<Rightarrow> 64 word" where
  "modifierBitFromKeyName key =
     (if key = ''Alt'' then ModifierKeyAlt
      else if key = ''Control'' then ModifierKeyControl
      else if key = ''Meta'' then ModifierKeyMeta
      else if key = ''Shift'' then ModifierKeyShift
      else 0)"

definition isKeyX :: "string \<Rightarrow> bool" where
  "isKeyX key \<longleftrightarrow> key \<in> set
     [''KeyA'', ''KeyB'', ''KeyC'', ''KeyD'', ''KeyE'', ''KeyF'', ''KeyG'', ''KeyH'', ''KeyI'',
      ''KeyJ'', ''KeyK'', ''KeyL'', ''KeyM'', ''KeyN'', ''KeyO'', ''KeyP'', ''KeyQ'', ''KeyR'',
      ''KeyS'', ''KeyT'', ''KeyU'', ''KeyV'', ''KeyW'', ''KeyX'', ''KeyY'', ''KeyZ'']"

subsection \<open>Second revision: keyDefinitionFromKey, down, up\<close>

text \<open>
  Lines 476 to 492 of \<^verbatim>\<open>keyDefinitionFromKey\<close>: the source entry, the shift value used
  for this resolution, and \<^verbatim>\<open>foundInShift\<close>.
\<close>

definition findSrcKeyDef :: "Keyboard \<Rightarrow> string \<Rightarrow> KeyDefinition \<times> 64 word \<times> bool" where
  "findSrcKeyDef k key =
     (let shift = modifiers k AND ModifierKeyShift;
          (srcKeyDef, ok) =
             (case map_of (Keys (layout k)) key of
                Some d \<Rightarrow> (d, True)
              | None \<Rightarrow> (zeroKeyDefinition, False));
          (srcKeyDef, ok) =
             (if \<not> ok then KeyDefinition (layout k) key else (srcKeyDef, ok))
      in if \<not> ok
         then (ShiftKeyDefinition (layout k) key, modifiers k OR ModifierKeyShift, True)
         else (srcKeyDef, shift, False))"

text \<open>Lines 494 to 535: the resulting definition, built field by field.\<close>

definition keyDefinitionFromKey :: "Keyboard \<Rightarrow> string \<Rightarrow> KeyDefinition" where
  "keyDefinitionFromKey k key =
     (let (srcKeyDef, shift, foundInShift) = findSrcKeyDef k key;
          keyDef = zeroKeyDefinition;
          keyDef = (if Key srcKeyDef \<noteq> '''' then keyDef\<lparr>Key := Key srcKeyDef\<rparr> else keyDef);
          keyDef = (if length (Key srcKeyDef) = 1 then keyDef\<lparr>Text := Key srcKeyDef\<rparr> else keyDef);
          keyDef = (if shift \<noteq> 0 \<and> ShiftKeyCode srcKeyDef \<noteq> 0
                    then keyDef\<lparr>KeyCode := ShiftKeyCode srcKeyDef\<rparr> else keyDef);
          keyDef = (if KeyCode srcKeyDef \<noteq> 0 then keyDef\<lparr>KeyCode := KeyCode srcKeyDef\<rparr> else keyDef);
          keyDef = (if key \<noteq> '''' then keyDef\<lparr>Code := key\<rparr> else keyDef);
          keyDef = (if Location srcKeyDef \<noteq> 0
                    then keyDef\<lparr>Location := Location srcKeyDef\<rparr> else keyDef);
          keyDef = (if Text srcKeyDef \<noteq> '''' then keyDef\<lparr>Text := Text srcKeyDef\<rparr> else keyDef);
          isKeyXOrOnShiftLayerAndShiftUsed =
             ((isKeyX key \<or> foundInShift) \<and> shift \<noteq> 0 \<and> ShiftKey srcKeyDef \<noteq> '''');
          keyDef = (if isKeyXOrOnShiftLayerAndShiftUsed
                    then keyDef\<lparr>Key := ShiftKey srcKeyDef, Text := ShiftKey srcKeyDef\<rparr>
                    else keyDef);
          keyDef = (if modifiers k AND NOT ModifierKeyShift \<noteq> 0
                    then keyDef\<lparr>Text := ''''\<rparr> else keyDef)
      in keyDef)"

definition down :: "Keyboard \<Rightarrow> string \<Rightarrow> Keyboard \<times> error option" where
  "down k key =
     (if key \<notin> ValidKeys (layout k) then (k, Some (NotValidKey key (layoutName k)))
      else
        let keyDef = keyDefinitionFromKey k key;
            k = k\<lparr>modifiers := modifiers k OR modifierBitFromKeyName (Key keyDef)\<rparr>;
            text = Text keyDef;
            autoRepeat = (pressedKeys k (KeyCode keyDef) \<noteq> None);
            k = k\<lparr>pressedKeys := (pressedKeys k)(KeyCode keyDef \<mapsto> True)\<rparr>;
            keyType = (if text = '''' then KeyRawDown else KeyDown);
            action = \<lparr>evType = keyType, evModifiers = modifiers k, evKey = Key keyDef,
                      evWindowsVirtualKeyCode = KeyCode keyDef, evCode = Code keyDef,
                      evLocation = Location keyDef, evIsKeypad = (Location keyDef = 3),
                      evText = text, evUnmodifiedText = text, evAutoRepeat = autoRepeat\<rparr>
        in case Do k action of
             (k, Some e) \<Rightarrow> (k, Some (Errorf ''cannot execute dispatch key event down'' e))
           | (k, None) \<Rightarrow> (k, None))"

definition up :: "Keyboard \<Rightarrow> string \<Rightarrow> Keyboard \<times> error option" where
  "up k key =
     (if key \<notin> ValidKeys (layout k) then (k, Some (NotValidKey key (layoutName k)))
      else
        let keyDef = keyDefinitionFromKey k key;
            k = k\<lparr>modifiers := modifiers k AND NOT (modifierBitFromKeyName (Key keyDef))\<rparr>;
            k = k\<lparr>pressedKeys := (pressedKeys k)(KeyCode keyDef := None)\<rparr>;
            action = \<lparr>evType = KeyUp, evModifiers = modifiers k, evKey = Key keyDef,
                      evWindowsVirtualKeyCode = KeyCode keyDef, evCode = Code keyDef,
                      evLocation = Location keyDef, evIsKeypad = False,
                      evText = '''', evUnmodifiedText = '''', evAutoRepeat = False\<rparr>
        in case Do k action of
             (k, Some e) \<Rightarrow> (k, Some (Errorf ''cannot execute dispatch key event up'' e))
           | (k, None) \<Rightarrow> (k, None))"

subsection \<open>Second revision: split and comboPress\<close>

text \<open>
  \<^verbatim>\<open>split\<close> (keyboard.go:619) walks the runes of \<^verbatim>\<open>keys\<close> with an accumulator
  \<^verbatim>\<open>s\<close> (a strings.Builder) and the list \<^verbatim>\<open>kk\<close> of finished segments. The runes of
  the string are modelled by its characters; \<^verbatim>\<open>s.Len() > 0\<close> is "the accumulator is
  not empty", since every rune written adds at least one byte.
\<close>

fun split_loop :: "string \<Rightarrow> string list \<Rightarrow> string \<Rightarrow> string list" where
  "split_loop [] kk s = kk @ [s]"
| "split_loop (r # rs) kk s =
     (if r = CHR ''+'' \<and> length s > 0
      then split_loop rs (kk @ [s]) []
      else split_loop rs kk (s @ [r]))"

definition split :: "string \<Rightarrow> string list" where
  "split keys = split_loop keys [] []"

text \<open>
  The segments joined again with a plus sign between neighbours, as
  \<^verbatim>\<open>strings.Join(kk, "+")\<close> would; used to state what \<^verbatim>\<open>split\<close> keeps of its input.
\<close>

fun joinPlus :: "string list \<Rightarrow> string" where
  "joinPlus [] = []"
| "joinPlus [s] = s"
| "joinPlus (s # t # ss) = s @ CHR ''+'' # joinPlus (t # ss)"

text \<open>
  \<^verbatim>\<open>comboPress\<close> (keyboard.go:585). The delay races a timer against the cancellation of
  the keyboard's context; which of the two the \<^verbatim>\<open>select\<close> takes is given by the
  environment as a \<open>DelayOutcome\<close>. The first loop presses the segments in order and
  stops at the first error; the second runs \<^verbatim>\<open>i\<close> over the indices of \<^verbatim>\<open>kk\<close> and
  releases \<^verbatim>\<open>kk[len(kk)-i-1]\<close>.
\<close>

datatype DelayOutcome = TimerFired | CtxDone

fun downLoop :: "Keyboard \<Rightarrow> string list \<Rightarrow> Keyboard \<times> error option" where
  "downLoop k [] = (k, None)"
| "downLoop k (key # kk) =
     (case down k key of
        (k', Some e) \<Rightarrow> (k', Some (Errorf ''cannot do key down'' e))
      | (k', None) \<Rightarrow> downLoop k' kk)"

fun upLoop :: "Keyboard \<Rightarrow> string list \<Rightarrow> nat list \<Rightarrow> Keyboard \<times> error option" where
  "upLoop k kk [] = (k, None)"
| "upLoop k kk (i # is) =
     (case up k (kk ! (length kk - i - 1)) of
        (k', Some e) \<Rightarrow> (k', Some (Errorf ''cannot do key up'' e))
      | (k', None) \<Rightarrow> upLoop k' kk is)"

definition comboPress ::
  "Keyboard \<Rightarrow> string \<Rightarrow> KeyboardOptions \<Rightarrow> DelayOutcome \<Rightarrow> Keyboard \<times> error option" where
  "comboPress k keys opts race =
     (if Delay opts \<noteq> 0 \<and> race = CtxDone then (k, Some ContextCanceled)
      else
        let kk = split keys in
        case downLoop k kk of
          (k', Some e) \<Rightarrow> (k', Some e)
        | (k', None) \<Rightarrow> upLoop k' kk [0..<length kk])"

text \<open>
  The commands handed to the session, each reduced to whether it is a down command
  (\<^verbatim>\<open>keyDown\<close> or \<^verbatim>\<open>rawKeyDown\<close>) and to its \<^verbatim>\<open>code\<close> field.
\<close>

definition issued :: "Keyboard \<Rightarrow> (bool \<times> string) list" where
  "issued k = map (\<lambda>a. (evType a \<noteq> KeyUp, evCode a)) (dispatched k)"

text \<open>
  \<^verbatim>\<open>NewKeyboard\<close> (keyboard.go:350); \<^verbatim>\<open>keyboardlayout.GetKeyboardLayout\<close>, the registry
  of layouts, is a parameter.
\<close>

definition NewKeyboard ::
  "(string \<Rightarrow> KeyboardLayout)
   \<Rightarrow> (DispatchKeyEventParams list \<Rightarrow> DispatchKeyEventParams \<Rightarrow> error option) \<Rightarrow> Keyboard" where
  "NewKeyboard GetKeyboardLayout s =
     \<lparr>session = s, dispatched = [], modifiers = 0, pressedKeys = Map.empty,
      layoutName = ''us'', layout = GetKeyboardLayout ''us''\<rparr>"

subsection \<open>First revision: keyDefinitionFromKey, down, up\<close>

text \<open>
  The first revision (keyboard.go:65-207) fetches the layout from the registry on every
  call and searches the table itself. Both \<^verbatim>\<open>range\<close> loops run to the end of the table
  and reassign \<^verbatim>\<open>keyString\<close> on every match, so a later comparison is made against
  the reassigned value. The record \<open>Keyboard\<close> is shared with the second revision; its
  field \<open>layout\<close> is not read here.
\<close>

fun keyLoop_r1 ::
  "(string \<times> KeyDefinition) list \<Rightarrow> string \<times> KeyDefinition \<times> bool
   \<Rightarrow> string \<times> KeyDefinition \<times> bool" where
  "keyLoop_r1 [] st = st"
| "keyLoop_r1 ((key, d) # rest) (keyString, srcKeyDef, ok) =
     (if Key d \<noteq> keyString then keyLoop_r1 rest (keyString, srcKeyDef, ok)
      else keyLoop_r1 rest (key, d, True))"

fun shiftKeyLoop_r1 ::
  "(string \<times> KeyDefinition) list \<Rightarrow> string \<times> KeyDefinition \<Rightarrow> string \<times> KeyDefinition" where
  "shiftKeyLoop_r1 [] st = st"
| "shiftKeyLoop_r1 ((key, d) # rest) (keyString, srcKeyDef) =
     (if ShiftKey d \<noteq> keyString then shiftKeyLoop_r1 rest (keyString, srcKeyDef)
      else shiftKeyLoop_r1 rest (key, d))"

text \<open>Lines 133 to 155: the final \<^verbatim>\<open>keyString\<close>, the source entry and the shift value.\<close>

definition findSrcKeyDef_r1 ::
  "(string \<Rightarrow> KeyboardLayout) \<Rightarrow> Keyboard \<Rightarrow> string \<Rightarrow> string \<times> KeyDefinition \<times> 64 word" where
  "findSrcKeyDef_r1 GetKeyboardLayout k keyString =
     (let layout = GetKeyboardLayout (layoutName k);
          (srcKeyDef, ok) =
             (case map_of (Keys layout) keyString of
                Some d \<Rightarrow> (d, True)
              | None \<Rightarrow> (zeroKeyDefinition, False));
          (keyString, srcKeyDef, ok) =
             (if \<not> ok then keyLoop_r1 (Keys layout) (keyString, srcKeyDef, ok)
              else (keyString, srcKeyDef, ok));
          shift = modifiers k AND ModifierKeyShift
      in if \<not> ok
         then (let (keyString, srcKeyDef) = shiftKeyLoop_r1 (Keys layout) (keyString, srcKeyDef)
               in (keyString, srcKeyDef, modifiers k OR ModifierKeyShift))
         else (keyString, srcKeyDef, shift))"

text \<open>Lines 157 to 192.\<close>

definition keyDefinitionFromKey_r1 ::
  "(string \<Rightarrow> KeyboardLayout) \<Rightarrow> Keyboard \<Rightarrow> string \<Rightarrow> KeyDefinition" where
  "keyDefinitionFromKey_r1 GetKeyboardLayout k keyString0 =
     (let (keyString, srcKeyDef, shift) = findSrcKeyDef_r1 GetKeyboardLayout k keyString0;
          keyDef = zeroKeyDefinition;
          keyDef = (if Key srcKeyDef \<noteq> '''' then keyDef\<lparr>Key := Key srcKeyDef\<rparr> else keyDef);
          keyDef = (if shift \<noteq> 0 \<and> ShiftKey srcKeyDef \<noteq> ''''
                    then keyDef\<lparr>Key := ShiftKey srcKeyDef\<rparr> else keyDef);
          keyDef = (if KeyCode srcKeyDef \<noteq> 0 then keyDef\<lparr>KeyCode := KeyCode srcKeyDef\<rparr> else keyDef);
          keyDef = (if shift \<noteq> 0 \<and> ShiftKeyCode srcKeyDef \<noteq> 0
                    then keyDef\<lparr>KeyCode := ShiftKeyCode srcKeyDef\<rparr> else keyDef);
          keyDef = (if KeyCode srcKeyDef \<noteq> 0 then keyDef\<lparr>KeyCode := KeyCode srcKeyDef\<rparr> else keyDef);
          keyDef = (if keyString \<noteq> '''' then keyDef\<lparr>Code := keyString\<rparr> else keyDef);
          keyDef = (if Location srcKeyDef \<noteq> 0
                    then keyDef\<lparr>Location := Location srcKeyDef\<rparr> else keyDef);
          keyDef = (if length (Key srcKeyDef) = 1 then keyDef\<lparr>Text := Key srcKeyDef\<rparr> else keyDef);
          keyDef = (if Text srcKeyDef \<noteq> '''' then keyDef\<lparr>Text := Text srcKeyDef\<rparr> else keyDef);
          keyDef = (if shift \<noteq> 0 \<and> ShiftKey srcKeyDef \<noteq> ''''
                    then keyDef\<lparr>Text := ShiftKey srcKeyDef\<rparr> else keyDef);
          keyDef = (if modifiers k AND NOT ModifierKeyShift \<noteq> 0
                    then keyDef\<lparr>Text := ''''\<rparr> else keyDef)
      in keyDef)"

definition down_r1 ::
  "(string \<Rightarrow> KeyboardLayout) \<Rightarrow> Keyboard \<Rightarrow> string \<Rightarrow> Keyboard \<times> error option" where
  "down_r1 GetKeyboardLayout k key =
     (let layout = GetKeyboardLayout (layoutName k) in
      if key \<notin> ValidKeys layout then (k, Some (NotValidKey key (layoutName k)))
      else
        let keyDef = keyDefinitionFromKey_r1 GetKeyboardLayout k key;
            k = k\<lparr>modifiers := modifiers k AND NOT (modifierBitFromKeyName (Key keyDef))\<rparr>;
            text = Text keyDef;
            autoRepeat = (pressedKeys k (KeyCode keyDef) \<noteq> None);
            k = k\<lparr>pressedKeys := (pressedKeys k)(KeyCode keyDef \<mapsto> True)\<rparr>;
            keyType = (if text = '''' then KeyRawDown else KeyDown);
            action = \<lparr>evType = keyType, evModifiers = modifiers k, evKey = Key keyDef,
                      evWindowsVirtualKeyCode = KeyCode keyDef, evCode = Code keyDef,
                      evLocation = Location keyDef, evIsKeypad = (Location keyDef = 3),
                      evText = text, evUnmodifiedText = text, evAutoRepeat = autoRepeat\<rparr>
        in case Do k action of
             (k, Some e) \<Rightarrow> (k, Some (Errorf ''unable to key down'' e))
           | (k, None) \<Rightarrow> (k, None))"

definition up_r1 ::
  "(string \<Rightarrow> KeyboardLayout) \<Rightarrow> Keyboard \<Rightarrow> string \<Rightarrow> Keyboard \<times> error option" where
  "up_r1 GetKeyboardLayout k key =
     (let layout = GetKeyboardLayout (layoutName k) in
      if key \<notin> ValidKeys layout then (k, Some (NotValidKey key (layoutName k)))
      else
        let keyDef = keyDefinitionFromKey_r1 GetKeyboardLayout k key;
            k = k\<lparr>modifiers := modifiers k AND NOT (modifierBitFromKeyName (Key keyDef))\<rparr>;
            k = k\<lparr>pressedKeys := (pressedKeys k)(KeyCode keyDef := None)\<rparr>;
            action = \<lparr>evType = KeyUp, evModifiers = modifiers k, evKey = Key keyDef,
                      evWindowsVirtualKeyCode = KeyCode keyDef, evCode = Code keyDef,
                      evLocation = Location keyDef, evIsKeypad = False,
                      evText = '''', evUnmodifiedText = '''', evAutoRepeat = False\<rparr>
        in case Do k action of
             (k, Some e) \<Rightarrow> (k, Some (Errorf ''unable to key up'' e))
           | (k, None) \<Rightarrow> (k, None))"

subsection \<open>A small layout to run the keyboard on\<close>

text \<open>
  Modelled from the spec: the lookups \<^verbatim>\<open>KeyDefinition\<close> and \<^verbatim>\<open>ShiftKeyDefinition\<close> of a
  layout, which are not among the sources. Section 4.1.1 of the spec: search the table for an
  entry whose unmodified value equals the token (step 2); search for an entry whose shift
  value equals the token (step 3). The theorems below take the lookups of a layout as
  they come; only the example layout uses these two.
\<close>

definition tableKeyDefinition ::
  "(string \<times> KeyDefinition) list \<Rightarrow> string \<Rightarrow> KeyDefinition \<times> bool" where
  "tableKeyDefinition tbl key =
     (case find (\<lambda>d. Key d = key) (map snd tbl) of
        Some d \<Rightarrow> (d, True)
      | None \<Rightarrow> (zeroKeyDefinition, False))"

text \<open>
  Modelled from the spec: \<^verbatim>\<open>ShiftKeyDefinition\<close> of a layout (step 3 of section 4.1.1),
  with the zero definition when no entry has the shift value.
\<close>

definition tableShiftKeyDefinition ::
  "(string \<times> KeyDefinition) list \<Rightarrow> string \<Rightarrow> KeyDefinition" where
  "tableShiftKeyDefinition tbl key =
     (case find (\<lambda>d. ShiftKey d = key) (map snd tbl) of
        Some d \<Rightarrow> d
      | None \<Rightarrow> zeroKeyDefinition)"

text \<open>
  Four keys in the shape of the entries of a "us" table (the repository's table is not
  among the sources): a Shift key and a Control key without shift values, the digit 2 whose
  shift value is the at sign, and the letter A.
\<close>

definition exampleKeys :: "(string \<times> KeyDefinition) list" where
  "exampleKeys =
     [(''ShiftLeft'', zeroKeyDefinition\<lparr>Key := ''Shift'', KeyCode := 160, Location := 1\<rparr>),
      (''ControlLeft'', zeroKeyDefinition\<lparr>Key := ''Control'', KeyCode := 162, Location := 1\<rparr>),
      (''Digit2'', zeroKeyDefinition\<lparr>Key := ''2'', KeyCode := 50, ShiftKey := ''@''\<rparr>),
      (''KeyA'', zeroKeyDefinition\<lparr>Key := ''a'', KeyCode := 65, ShiftKey := ''A''\<rparr>)]"

definition exampleLayout :: KeyboardLayout where
  "exampleLayout =
     \<lparr>ValidKeys = {''ShiftLeft'', ''Shift'', ''ControlLeft'', ''Control'', ''Digit2'', ''2'',
                   ''@'', ''KeyA'', ''a'', ''A''},
      Keys = exampleKeys,
      KeyDefinition = tableKeyDefinition exampleKeys,
      ShiftKeyDefinition = tableShiftKeyDefinition exampleKeys\<rparr>"

definition exampleRegistry :: "string \<Rightarrow> KeyboardLayout" where
  "exampleRegistry name = exampleLayout"

text \<open>A new keyboard on the example layout whose session accepts every command.\<close>

definition acceptAll :: "DispatchKeyEventParams list \<Rightarrow> DispatchKeyEventParams \<Rightarrow> error option" where
  "acceptAll history action = None"

definition exampleKeyboard :: Keyboard where
  "exampleKeyboard = NewKeyboard exampleRegistry acceptAll"

text \<open>The same keyboard with the Shift bit set in its modifiers.\<close>

definition shiftHeldKeyboard :: Keyboard where
  "shiftHeldKeyboard = exampleKeyboard\<lparr>modifiers := ModifierKeyShift\<rparr>"

section \<open>Argument conversion (common/helpers.go)\<close>

text \<open>
  helpers.go and its second copy (unnamed/part_000) agree on every function modelled
  here. A \<^verbatim>\<open>cdpruntime.CallArgument\<close> is a struct of three fields, each empty when not
  set. A handle carries the identity of its execution context (the pointer, as a
  number), its \<^verbatim>\<open>disposed\<close> flag and the three fields of its remote object that the
  conversion reads.
\<close>

record CallArgument =
  Value :: string
  UnserializableValue :: string
  ObjectID :: string

definition zeroCallArgument :: CallArgument where
  "zeroCallArgument = \<lparr>Value = '''', UnserializableValue = '''', ObjectID = ''''\<rparr>"

record RemoteObject =
  roValue :: string
  roUnserializableValue :: string
  roObjectID :: string

record BaseJSHandle =
  execCtx :: nat
  disposed :: bool
  remoteObject :: RemoteObject

definition convertBaseJSHandleTypes ::
  "nat \<Rightarrow> BaseJSHandle \<Rightarrow> CallArgument option \<times> error option" where
  "convertBaseJSHandleTypes ctx objHandle =
     (if execCtx objHandle \<noteq> ctx then (None, Some ErrWrongExecutionContext)
      else if disposed objHandle then (None, Some ErrJSHandleDisposed)
      else if roUnserializableValue (remoteObject objHandle) \<noteq> ''''
      then (Some (zeroCallArgument
              \<lparr>UnserializableValue := roUnserializableValue (remoteObject objHandle)\<rparr>), None)
      else if roObjectID (remoteObject objHandle) = ''''
      then (Some (zeroCallArgument\<lparr>Value := roValue (remoteObject objHandle)\<rparr>), None)
      else (Some (zeroCallArgument\<lparr>ObjectID := roObjectID (remoteObject objHandle)\<rparr>), None))"

text \<open>
  A \<^verbatim>\<open>float64\<close> is its 64 bits. Go's \<^verbatim>\<open>==\<close> on floats is the IEEE 754 comparison: a
  NaN equals nothing, the two zeros equal each other, and any other two values are equal
  when their bits are.
\<close>

type_synonym float64 = "64 word"

definition math_IsNaN :: "float64 \<Rightarrow> bool" where
  "math_IsNaN f \<longleftrightarrow>
     f AND 0x7FF0000000000000 = 0x7FF0000000000000 \<and> f AND 0x000FFFFFFFFFFFFF \<noteq> 0"

definition isZero :: "float64 \<Rightarrow> bool" where
  "isZero f \<longleftrightarrow> f = 0 \<or> f = 0x8000000000000000"

definition float_eq :: "float64 \<Rightarrow> float64 \<Rightarrow> bool" where
  "float_eq a b \<longleftrightarrow> \<not> math_IsNaN a \<and> \<not> math_IsNaN b \<and> (a = b \<or> (isZero a \<and> isZero b))"

definition math_Float64frombits :: "64 word \<Rightarrow> float64" where
  "math_Float64frombits b = b"

definition math_Inf :: "int \<Rightarrow> float64" where
  "math_Inf sign = (if sign \<ge> 0 then 0x7FF0000000000000 else 0xFFF0000000000000)"

definition math_MaxInt32 :: int where
  "math_MaxInt32 = 2147483647"

text \<open>The verb \<^verbatim>\<open>%d\<close> of \<^verbatim>\<open>fmt.Sprintf\<close> on an integer: its decimal digits.\<close>

definition digit :: "nat \<Rightarrow> char" where
  "digit n = ''0123456789'' ! n"

function decimalNat :: "nat \<Rightarrow> string" where
  "decimalNat n = (if n < 10 then [digit n] else decimalNat (n div 10) @ [digit (n mod 10)])"
  by pat_completeness auto
termination
  by (relation "measure id") auto

declare decimalNat.simps [simp del]

definition formatInt :: "int \<Rightarrow> string" where
  "formatInt i = (if i < 0 then CHR ''-'' # decimalNat (nat (- i)) else decimalNat (nat i))"

text \<open>
  A \<^verbatim>\<open>goja.Value\<close> by its export type, as the \<^verbatim>\<open>switch\<close> of \<^verbatim>\<open>convertArgument\<close>
  tells them apart; an element handle embeds a \<^verbatim>\<open>BaseJSHandle\<close>. \<^verbatim>\<open>json.Marshal\<close> is a
  parameter: a function from the Go value it is given to the bytes and the error it
  returns.
\<close>

datatype 'o gojaValue =
    Int64Value int
  | Float64Value float64
  | ElementHandleValue BaseJSHandle
  | BaseJSHandleValue BaseJSHandle
  | OtherValue 'o

datatype 'o goValue = GoInt64 int | GoFloat64 float64 | GoOther 'o

definition convertArgument ::
  "('o goValue \<Rightarrow> string \<times> error option) \<Rightarrow> nat \<Rightarrow> 'o gojaValue
   \<Rightarrow> CallArgument option \<times> error option" where
  "convertArgument Marshal ctx arg =
     (case arg of
        Int64Value i \<Rightarrow>
          if i > math_MaxInt32
          then (Some (zeroCallArgument\<lparr>UnserializableValue := formatInt i @ ''n''\<rparr>), None)
          else (let (b, err) = Marshal (GoInt64 i) in (Some (zeroCallArgument\<lparr>Value := b\<rparr>), err))
      | Float64Value f \<Rightarrow>
          if float_eq f (math_Float64frombits (0 OR push_bit 63 1))
          then (Some (zeroCallArgument\<lparr>UnserializableValue := ''-0''\<rparr>), None)
          else if float_eq f (math_Inf 0)
          then (Some (zeroCallArgument\<lparr>UnserializableValue := ''Infinity''\<rparr>), None)
          else if float_eq f (math_Inf (- 1))
          then (Some (zeroCallArgument\<lparr>UnserializableValue := ''-Infinity''\<rparr>), None)
          else if math_IsNaN f
          then (Some (zeroCallArgument\<lparr>UnserializableValue := ''NaN''\<rparr>), None)
          else (let (b, err) = Marshal (GoFloat64 f) in (Some (zeroCallArgument\<lparr>Value := b\<rparr>), err))
      | ElementHandleValue objHandle \<Rightarrow> convertBaseJSHandleTypes ctx objHandle
      | BaseJSHandleValue objHandle \<Rightarrow> convertBaseJSHandleTypes ctx objHandle
      | OtherValue v \<Rightarrow>
          (let (b, err) = Marshal (GoOther v) in (Some (zeroCallArgument\<lparr>Value := b\<rparr>), err)))"

text \<open>
  An encoder to run \<^verbatim>\<open>convertArgument\<close> on: integers as their decimal digits, as
  \<^verbatim>\<open>json.Marshal\<close> writes them; the encoding of floats and of other values is not
  modelled and stands as a fixed text.
\<close>

definition exampleMarshal :: "unit goValue \<Rightarrow> string \<times> error option" where
  "exampleMarshal v =
     (case v of
        GoInt64 i \<Rightarrow> (formatInt i, None)
      | GoFloat64 f \<Rightarrow> (''<float>'', None)
      | GoOther u \<Rightarrow> (''null'', None))"

text \<open>
  A handle to run the conversion on: obtained in context 1, disposed, with an
  unserializable value, an inline value and an object id.
\<close>

definition exampleHandle :: BaseJSHandle where
  "exampleHandle =
     \<lparr>execCtx = 1, disposed = True,
      remoteObject = \<lparr>roValue = ''5'', roUnserializableValue = ''NaN'', roObjectID = ''obj-1''\<rparr>\<rparr>"

section \<open>Calls with a timeout and waits for events (common/helpers.go)\<close>

text \<open>
  \<^verbatim>\<open>callApiWithTimeout\<close> blocks in a \<^verbatim>\<open>select\<close> over three channels. What the
  environment does is a list of occurrences, in the order in which the \<^verbatim>\<open>select\<close>
  gets to see them; the first one that makes a case ready decides. The context
  \<^verbatim>\<open>apiCtx\<close> is done when the caller's context is (with the caller's error), or, when
  \<^verbatim>\<open>timeout > 0\<close>, when its own deadline passes (with \<^verbatim>\<open>context.DeadlineExceeded\<close>);
  with \<^verbatim>\<open>timeout \<le> 0\<close> there is no deadline of its own and such an occurrence is
  skipped. A list that ends before any case is ready is a call that never returns
  (\<open>None\<close>). The result of the inner function is an interface value, \<open>None\<close> for nil.
\<close>

datatype ctxErr = Canceled | DeadlineExceeded

datatype 'a apiOccurrence =
    CallerDone ctxErr
  | OwnDeadline
  | FnResult "'a option"
  | FnError "error option"

fun callApiWithTimeout ::
  "int \<Rightarrow> 'a apiOccurrence list \<Rightarrow> ('a option \<times> error option) option" where
  "callApiWithTimeout timeout [] = None"
| "callApiWithTimeout timeout (CallerDone e # rest) =
     Some (None, if e = Canceled then Some ErrTimedOut else None)"
| "callApiWithTimeout timeout (OwnDeadline # rest) =
     (if timeout > 0
      then Some (None, if DeadlineExceeded = Canceled then Some ErrTimedOut else None)
      else callApiWithTimeout timeout rest)"
| "callApiWithTimeout timeout (FnResult r # rest) = Some (r, None)"
| "callApiWithTimeout timeout (FnError e # rest) = Some (None, e)"

text \<open>
  An event has a type and a payload (an interface value, \<open>None\<close> for nil).
  \<^verbatim>\<open>createWaitForEventHandler\<close> starts a goroutine that reads the events the emitter
  hands it; \<open>handleEvent\<close> is what its loop body does with one event to the channel
  \<^verbatim>\<open>ch\<close>: nothing when the type is not listed; otherwise it sends the payload when the
  predicate holds, sends nil when there is no predicate, sends nothing when the predicate
  fails, and in all three cases closes \<^verbatim>\<open>ch\<close>, cancels the subscription and returns.
\<close>

record 'a Event =
  evTyp :: string
  evData :: "'a option"

fun stringSliceContains :: "string list \<Rightarrow> string \<Rightarrow> bool" where
  "stringSliceContains [] e = False"
| "stringSliceContains (a # s) e = (if a = e then True else stringSliceContains s e)"

datatype 'a chanAction = KeepWaiting | SendThenClose "'a option" | CloseOnly

definition handleEvent ::
  "string list \<Rightarrow> ('a option \<Rightarrow> bool) option \<Rightarrow> 'a Event \<Rightarrow> 'a chanAction" where
  "handleEvent events predicateFn ev =
     (if stringSliceContains events (evTyp ev)
      then (case predicateFn of
              Some p \<Rightarrow> if p (evData ev) then SendThenClose (evData ev) else CloseOnly
            | None \<Rightarrow> SendThenClose None)
      else KeepWaiting)"

text \<open>
  \<^verbatim>\<open>waitForEvent\<close> blocks in a \<^verbatim>\<open>select\<close> over the caller's context, the timer and
  \<^verbatim>\<open>ch\<close>. The environment is again a list of occurrences in the order in which they
  are seen. A receive from \<^verbatim>\<open>ch\<close> yields the value sent, or, when \<^verbatim>\<open>ch\<close> was closed
  with nothing sent, the zero value nil; both return with a nil error. A list that ends
  before any case is ready is a call that never returns (\<open>None\<close>).
\<close>

datatype 'a occurrence = Emitted "'a Event" | TimerFires | CallerCancelled

fun waitForEvent ::
  "string list \<Rightarrow> ('a option \<Rightarrow> bool) option \<Rightarrow> 'a occurrence list
   \<Rightarrow> ('a option \<times> error option) option" where
  "waitForEvent events predicateFn [] = None"
| "waitForEvent events predicateFn (CallerCancelled # rest) = Some (None, None)"
| "waitForEvent events predicateFn (TimerFires # rest) = Some (None, Some ErrTimedOut)"
| "waitForEvent events predicateFn (Emitted ev # rest) =
     (case handleEvent events predicateFn ev of
        KeepWaiting \<Rightarrow> waitForEvent events predicateFn rest
      | SendThenClose v \<Rightarrow> Some (v, None)
      | CloseOnly \<Rightarrow> Some (None, None))"

text \<open>A predicate to run the wait on: the payload is the number 2.\<close>

definition isTwo :: "nat option \<Rightarrow> bool" where
  "isTwo d \<longleftrightarrow> d = Some 2"

section \<open>Aborted navigation of a frame\<close>

text \<open>
  The test of the aborted navigation (keyboard.go:759) fixes the data: a frame has a
  pending document or none, a pending document has a document id, and a navigation event
  has a \<^verbatim>\<open>newDocument\<close> and, from section 3 of the spec, an optional error text. The
  frame manager is its frames by id and the events emitted so far, each with the id of
  the frame that emitted it.
\<close>

record DocumentInfo =
  documentID :: string

record NavigationEvent =
  newDocument :: "DocumentInfo option"
  navError :: "string option"

record Frame =
  pendingDocument :: "DocumentInfo option"

record FrameManager =
  frames :: "string \<rightharpoonup> Frame"
  emitted :: "(string \<times> NavigationEvent) list"

text \<open>
  Modelled from the spec: \<^verbatim>\<open>frameAbortedNavigation\<close> of the frame manager, which is not
  among the sources (only its test is). Section 4.4 of the spec: on abort with a given
  document id and error message, look up the frame, emit a navigation event whose
  \<^verbatim>\<open>newDocument\<close> is the frame's current pending document (captured before clearing),
  carrying the error, and only then clear the frame's pending document. The spec does not
  say what happens when no frame has the id; the model then changes nothing.
\<close>

definition frameAbortedNavigation ::
  "FrameManager \<Rightarrow> string \<Rightarrow> string \<Rightarrow> string \<Rightarrow> FrameManager" where
  "frameAbortedNavigation m frameID errorText docID =
     (case frames m frameID of
        None \<Rightarrow> m
      | Some frame \<Rightarrow>
          let ne = \<lparr>newDocument = pendingDocument frame, navError = Some errorText\<rparr>;
              m = m\<lparr>emitted := emitted m @ [(frameID, ne)]\<rparr>
          in m\<lparr>frames := (frames m)(frameID \<mapsto> frame\<lparr>pendingDocument := None\<rparr>)\<rparr>)"

text \<open>The frame manager of the test: one frame "42" whose pending document is "42".\<close>

definition testFrameManager :: FrameManager where
  "testFrameManager =
     \<lparr>frames = [''42'' \<mapsto> \<lparr>pendingDocument = Some \<lparr>documentID = ''42''\<rparr>\<rparr>], emitted = []\<rparr>"

section \<open>Properties of split\<close>

lemma split_loop_segments_first: "split_loop rs kk s = kk @ split_loop rs [] s"
proof (induction rs arbitrary: kk s)
  case Nil
  show ?case by simp
next
  case (Cons r rs)
  show ?case
  proof (cases "r = CHR ''+'' \<and> s \<noteq> []")
    case True
    then show ?thesis
      using Cons.IH [of "kk @ [s]" "[]"] Cons.IH [of "[s]" "[]"] by simp
  next
    case False
    then have "split_loop (r # rs) kk s = split_loop rs kk (s @ [r])"
      "split_loop (r # rs) [] s = split_loop rs [] (s @ [r])" by auto
    then show ?thesis
      using Cons.IH [of kk "s @ [r]"] by simp
  qed
qed

lemma split_loop_no_plus:
  "CHR ''+'' \<notin> set xs \<Longrightarrow> split_loop (xs @ rest) kk s = split_loop rest kk (s @ xs)"
  by (induction xs arbitrary: s) auto

text \<open>
  C3. In every state of the loop of \<^verbatim>\<open>split\<close>, a plus sign met with a non-empty
  accumulator closes the segment (the accumulator is appended to the segments and reset),
  a plus sign met with an empty accumulator is appended to the accumulator as a literal,
  every other character is appended to the accumulator, and at the end of the input the
  accumulator, empty or not, becomes the last segment. So a string without a plus sign is
  its own single segment, and a plus sign after a non-empty stretch without plus signs
  separates that stretch from the split of the rest. In particular
  split "+" = ["+"], split "++" = ["+", ""], split "+++" = ["+", "+"] and
  split "a+b" = ["a", "b"].
\<close>

theorem split_plus_rule:
  "split_loop (CHR ''+'' # rs) kk (c # s) = split_loop rs (kk @ [c # s]) []
   \<and> split_loop (CHR ''+'' # rs) kk [] = split_loop rs kk [CHR ''+'']
   \<and> split_loop (r # rs) kk s =
       (if r = CHR ''+'' \<and> s \<noteq> [] then split_loop rs (kk @ [s]) [] else split_loop rs kk (s @ [r]))
   \<and> split_loop [] kk s = kk @ [s]
   \<and> split keys = split_loop keys [] []
   \<and> (CHR ''+'' \<notin> set xs \<longrightarrow> split xs = [xs])
   \<and> (CHR ''+'' \<notin> set xs \<and> xs \<noteq> [] \<longrightarrow> split (xs @ CHR ''+'' # ys) = xs # split ys)
   \<and> split ''+'' = [''+'']
   \<and> split ''++'' = [''+'', '''']
   \<and> split ''+++'' = [''+'', ''+'']
   \<and> split ''a+b'' = [''a'', ''b'']"
proof -
  have a: "CHR ''+'' \<notin> set xs \<longrightarrow> split xs = [xs]"
    using split_loop_no_plus [of xs "[]" "[]" "[]"] by (simp add: split_def)
  have b: "CHR ''+'' \<notin> set xs \<and> xs \<noteq> [] \<longrightarrow> split (xs @ CHR ''+'' # ys) = xs # split ys"
    using split_loop_no_plus [of xs "CHR ''+'' # ys" "[]" "[]"]
      split_loop_segments_first [of ys "[xs]" "[]"]
    by (simp add: split_def)
  from a b show ?thesis by (simp add: split_def)
qed

theorem split_plus_rule_witness:
  "split ''Shift'' = [''Shift''] \<and> split ''Shift+a'' = ''Shift'' # split ''a''"
  using split_plus_rule [where xs = "''Shift''" and ys = "''a''"]
  by simp

section \<open>Properties of the second revision of the keyboard\<close>

subsection \<open>What down and up do on a valid key\<close>

lemma Code_keyDefinitionFromKey: "Code (keyDefinitionFromKey k key) = key"
  by (cases "findSrcKeyDef k key")
     (simp add: keyDefinitionFromKey_def Let_def zeroKeyDefinition_def if_distrib [of Code])

lemma down_valid:
  "key \<in> ValidKeys (layout k) \<Longrightarrow>
   down k key =
     (let keyDef = keyDefinitionFromKey k key;
          m = modifiers k OR modifierBitFromKeyName (Key keyDef);
          a = \<lparr>evType = (if Text keyDef = '''' then KeyRawDown else KeyDown), evModifiers = m,
               evKey = Key keyDef, evWindowsVirtualKeyCode = KeyCode keyDef, evCode = key,
               evLocation = Location keyDef, evIsKeypad = (Location keyDef = 3),
               evText = Text keyDef, evUnmodifiedText = Text keyDef,
               evAutoRepeat = (pressedKeys k (KeyCode keyDef) \<noteq> None)\<rparr>
      in (k\<lparr>modifiers := m, pressedKeys := (pressedKeys k)(KeyCode keyDef \<mapsto> True),
            dispatched := dispatched k @ [a]\<rparr>,
          map_option (Errorf ''cannot execute dispatch key event down'')
            (session k (dispatched k) a)))"
  by (simp add: down_def Do_def Let_def Code_keyDefinitionFromKey split: option.split)

lemma up_valid:
  "key \<in> ValidKeys (layout k) \<Longrightarrow>
   up k key =
     (let keyDef = keyDefinitionFromKey k key;
          m = modifiers k AND NOT (modifierBitFromKeyName (Key keyDef));
          a = \<lparr>evType = KeyUp, evModifiers = m,
               evKey = Key keyDef, evWindowsVirtualKeyCode = KeyCode keyDef, evCode = key,
               evLocation = Location keyDef, evIsKeypad = False,
               evText = '''', evUnmodifiedText = '''', evAutoRepeat = False\<rparr>
      in (k\<lparr>modifiers := m, pressedKeys := (pressedKeys k)(KeyCode keyDef := None),
            dispatched := dispatched k @ [a]\<rparr>,
          map_option (Errorf ''cannot execute dispatch key event up'')
            (session k (dispatched k) a)))"
  by (simp add: up_def Do_def Let_def Code_keyDefinitionFromKey split: option.split)

lemma down_accepted:
  assumes "key \<in> ValidKeys (layout k)" and "\<forall>h a. session k h a = None"
  shows "\<exists>k'. down k key = (k', None) \<and> session k' = session k \<and> layout k' = layout k
           \<and> issued k' = issued k @ [(True, key)]"
  using assms by (simp add: down_valid Let_def issued_def)

lemma up_accepted:
  assumes "key \<in> ValidKeys (layout k)" and "\<forall>h a. session k h a = None"
  shows "\<exists>k'. up k key = (k', None) \<and> session k' = session k \<and> layout k' = layout k
           \<and> issued k' = issued k @ [(False, key)]"
  using assms by (simp add: up_valid Let_def issued_def)

subsection \<open>The two loops of comboPress\<close>

lemma downLoop_accepted:
  assumes "set kk \<subseteq> ValidKeys (layout k)" and "\<forall>h a. session k h a = None"
  shows "\<exists>k'. downLoop k kk = (k', None) \<and> session k' = session k \<and> layout k' = layout k
           \<and> issued k' = issued k @ map (Pair True) kk"
  using assms
proof (induction kk arbitrary: k)
  case Nil
  show ?case by simp
next
  case (Cons key kk)
  from Cons.prems have "key \<in> ValidKeys (layout k)" by simp
  from down_accepted [OF this Cons.prems(2)] obtain k1 where
    d: "down k key = (k1, None)" and s: "session k1 = session k" and l: "layout k1 = layout k"
    and c: "issued k1 = issued k @ [(True, key)]"
    by blast
  from Cons.prems s l have "set kk \<subseteq> ValidKeys (layout k1)" "\<forall>h a. session k1 h a = None"
    by (simp_all add: fun_eq_iff)
  from Cons.IH [OF this] obtain k' where
    "downLoop k1 kk = (k', None)" "session k' = session k1" "layout k' = layout k1"
    "issued k' = issued k1 @ map (Pair True) kk"
    by blast
  with d s l c show ?case by simp
qed

lemma upLoop_accepted:
  assumes "\<forall>i \<in> set is. kk ! (length kk - i - 1) \<in> ValidKeys (layout k)"
    and "\<forall>h a. session k h a = None"
  shows "\<exists>k'. upLoop k kk is = (k', None) \<and> session k' = session k \<and> layout k' = layout k
           \<and> issued k' = issued k @ map (\<lambda>i. (False, kk ! (length kk - i - 1))) is"
  using assms
proof (induction "is" arbitrary: k)
  case Nil
  show ?case by simp
next
  case (Cons i "is")
  from Cons.prems have "kk ! (length kk - i - 1) \<in> ValidKeys (layout k)" by simp
  from up_accepted [OF this Cons.prems(2)] obtain k1 where
    d: "up k (kk ! (length kk - i - 1)) = (k1, None)" and s: "session k1 = session k"
    and l: "layout k1 = layout k"
    and c: "issued k1 = issued k @ [(False, kk ! (length kk - i - 1))]"
    by blast
  from Cons.prems s l have
    "\<forall>i \<in> set is. kk ! (length kk - i - 1) \<in> ValidKeys (layout k1)"
    "\<forall>h a. session k1 h a = None"
    by (simp_all add: fun_eq_iff)
  from Cons.IH [OF this] obtain k' where
    "upLoop k1 kk is = (k', None)" "session k' = session k1" "layout k' = layout k1"
    "issued k' = issued k1 @ map (\<lambda>i. (False, kk ! (length kk - i - 1))) is"
    by blast
  with d s l c show ?case by simp
qed

lemma index_from_the_end: "map (\<lambda>i. kk ! (length kk - i - 1)) [0..<length kk] = rev kk"
  by (rule nth_equalityI) (simp_all add: rev_nth)

subsection \<open>The definitions of the example layout\<close>

lemmas example_defs =
  shiftHeldKeyboard_def exampleKeyboard_def NewKeyboard_def exampleRegistry_def
  exampleLayout_def exampleKeys_def zeroKeyDefinition_def ModifierKeyShift_def
  tableKeyDefinition_def tableShiftKeyDefinition_def acceptAll_def

subsection \<open>The order of the commands of comboPress\<close>

lemma down_returns_nil:
  assumes "down k key = (k', None)"
  shows "issued k' = issued k @ [(True, key)]"
proof (cases "key \<in> ValidKeys (layout k)")
  case True
  from assms show ?thesis
    unfolding down_valid [OF True] by (auto simp: Let_def issued_def)
next
  case False
  with assms show ?thesis by (simp add: down_def)
qed

lemma up_returns_nil:
  assumes "up k key = (k', None)"
  shows "issued k' = issued k @ [(False, key)]"
proof (cases "key \<in> ValidKeys (layout k)")
  case True
  from assms show ?thesis
    unfolding up_valid [OF True] by (auto simp: Let_def issued_def)
next
  case False
  with assms show ?thesis by (simp add: up_def)
qed

lemma downLoop_returns_nil:
  "downLoop k kk = (k', None) \<Longrightarrow> issued k' = issued k @ map (Pair True) kk"
proof (induction kk arbitrary: k)
  case Nil
  then show ?case by simp
next
  case (Cons key kk)
  obtain k1 e where d: "down k key = (k1, e)" by (cases "down k key")
  with Cons.prems have e: "e = None" and r: "downLoop k1 kk = (k', None)"
    by (auto split: option.splits)
  from down_returns_nil [of k key k1] d e Cons.IH [OF r] show ?case by simp
qed

lemma upLoop_returns_nil:
  "upLoop k kk is = (k', None) \<Longrightarrow>
   issued k' = issued k @ map (\<lambda>i. (False, kk ! (length kk - i - 1))) is"
proof (induction "is" arbitrary: k)
  case Nil
  then show ?case by simp
next
  case (Cons i "is")
  obtain k1 e where d: "up k (kk ! (length kk - i - 1)) = (k1, e)"
    by (cases "up k (kk ! (length kk - i - 1))")
  with Cons.prems have e: "e = None" and r: "upLoop k1 kk is = (k', None)"
    by (auto split: option.splits)
  from up_returns_nil [of k _ k1] d e Cons.IH [OF r] show ?case by simp
qed

lemma releases_in_reverse:
  "map (\<lambda>i. (False, kk ! (length kk - i - 1))) [0..<length kk] = map (Pair False) (rev kk)"
proof -
  have "map (\<lambda>i. (False, kk ! (length kk - i - 1))) [0..<length kk]
          = map (Pair False) (map (\<lambda>i. kk ! (length kk - i - 1)) [0..<length kk])"
    by simp
  also have "\<dots> = map (Pair False) (rev kk)"
    by (simp only: index_from_the_end)
  finally show ?thesis .
qed

lemma comboPress_returns_nil:
  assumes "comboPress k keys opts race = (k', None)"
  shows "issued k' =
           issued k @ map (Pair True) (split keys) @ map (Pair False) (rev (split keys))"
proof -
  let ?kk = "split keys"
  obtain k1 e where d: "downLoop k ?kk = (k1, e)" by (cases "downLoop k ?kk")
  with assms have e: "e = None" and u: "upLoop k1 ?kk [0..<length ?kk] = (k', None)"
    by (auto simp: comboPress_def Let_def split: if_splits option.splits)
  from downLoop_returns_nil [of k ?kk k1] d e upLoop_returns_nil [OF u]
    releases_in_reverse [of ?kk]
  show ?thesis by simp
qed

lemma comboPress_runs:
  assumes "set (split keys) \<subseteq> ValidKeys (layout k)"
    and "\<forall>h a. session k h a = None"
    and "Delay opts = 0 \<or> race = TimerFired"
  shows "\<exists>k'. comboPress k keys opts race = (k', None)"
proof -
  let ?kk = "split keys"
  from downLoop_accepted [OF assms(1,2)] obtain k1 where
    d: "downLoop k ?kk = (k1, None)" and s: "session k1 = session k" and l: "layout k1 = layout k"
    by blast
  have v: "\<forall>i \<in> set [0..<length ?kk]. ?kk ! (length ?kk - i - 1) \<in> ValidKeys (layout k1)"
    using assms(1) l by (auto simp: subset_iff)
  have "\<forall>h a. session k1 h a = None"
    using assms(2) s by simp
  from upLoop_accepted [OF v this] obtain k' where
    u: "upLoop k1 ?kk [0..<length ?kk] = (k', None)"
    by blast
  from assms(3) d u show ?thesis
    by (auto simp: comboPress_def Let_def)
qed

text \<open>
  C6, as stated, fails when a non-zero delay is interrupted: with every segment valid and
  a session that accepts every command, \<^verbatim>\<open>comboPress\<close> with a delay of 5 ms whose
  context is cancelled during the delay returns \<^verbatim>\<open>context.Canceled\<close> and hands no
  command to the session.
\<close>

theorem comboPress_cancelled_counterexample:
  "set (split ''Shift+a'') \<subseteq> ValidKeys (layout exampleKeyboard)
   \<and> session exampleKeyboard = acceptAll
   \<and> snd (comboPress exampleKeyboard ''Shift+a'' \<lparr>Delay = 5\<rparr> CtxDone) = Some ContextCanceled
   \<and> issued (fst (comboPress exampleKeyboard ''Shift+a'' \<lparr>Delay = 5\<rparr> CtxDone)) = []"
  by (simp add: comboPress_def split_def exampleKeyboard_def NewKeyboard_def exampleRegistry_def
      exampleLayout_def issued_def)

text \<open>
  C6, amended. Whenever \<^verbatim>\<open>comboPress\<close> returns without error, the commands it handed
  to the session are, after those sent before the call, the down commands of the
  segments k1, ..., kn of the combo string in that order, followed by the up commands of
  kn, ..., k1. It returns without error when every segment is a valid key of the layout,
  the session accepts every command, and the delay is zero or runs to its end. When a
  non-zero delay is interrupted by the cancellation of the keyboard's context, it returns
  \<^verbatim>\<open>context.Canceled\<close> and leaves the keyboard as it was, with no command sent.
\<close>

theorem comboPress_order:
  "(comboPress k keys opts race = (k', None) \<longrightarrow>
      issued k' =
        issued k @ map (Pair True) (split keys) @ map (Pair False) (rev (split keys)))
   \<and> (set (split keys) \<subseteq> ValidKeys (layout k) \<and> (\<forall>h a. session k h a = None)
        \<and> (Delay opts = 0 \<or> race = TimerFired) \<longrightarrow>
      (\<exists>k''. comboPress k keys opts race = (k'', None)))
   \<and> (Delay opts \<noteq> 0 \<and> race = CtxDone \<longrightarrow>
      comboPress k keys opts race = (k, Some ContextCanceled))"
  using comboPress_returns_nil [of k keys opts race k'] comboPress_runs [of keys k opts race]
  by (simp add: comboPress_def)

theorem comboPress_order_witness:
  "issued (fst (comboPress exampleKeyboard ''Shift+a'' \<lparr>Delay = 0\<rparr> TimerFired))
     = [(True, ''Shift''), (True, ''a''), (False, ''a''), (False, ''Shift'')]
   \<and> snd (comboPress exampleKeyboard ''Shift+a'' \<lparr>Delay = 0\<rparr> TimerFired) = None
   \<and> comboPress exampleKeyboard ''Shift+a'' \<lparr>Delay = 5\<rparr> CtxDone
       = (exampleKeyboard, Some ContextCanceled)"
proof -
  let ?r = "comboPress exampleKeyboard ''Shift+a'' \<lparr>Delay = 0\<rparr> TimerFired"
  have v: "set (split ''Shift+a'') \<subseteq> ValidKeys (layout exampleKeyboard)"
    by (simp add: split_def example_defs)
  have a: "\<forall>h a. session exampleKeyboard h a = None"
    by (simp add: example_defs)
  have i: "issued exampleKeyboard = []"
    by (simp add: issued_def example_defs)
  note t = comboPress_order [of exampleKeyboard "''Shift+a''" "\<lparr>Delay = 0\<rparr>" TimerFired "fst ?r"]
  from t v a obtain k'' where r: "?r = (k'', None)"
    by auto
  with t have "issued (fst ?r) = issued exampleKeyboard @ map (Pair True) (split ''Shift+a'')
      @ map (Pair False) (rev (split ''Shift+a''))"
    by simp
  then have "issued (fst ?r) = [(True, ''Shift''), (True, ''a''), (False, ''a''), (False, ''Shift'')]"
    by (simp add: i split_def)
  moreover from r have "snd ?r = None" by simp
  moreover have "comboPress exampleKeyboard ''Shift+a'' \<lparr>Delay = 5\<rparr> CtxDone
       = (exampleKeyboard, Some ContextCanceled)"
    using comboPress_order [of exampleKeyboard "''Shift+a''" "\<lparr>Delay = 5\<rparr>" CtxDone] by simp
  ultimately show ?thesis by blast
qed

section \<open>Key resolution and shift substitution\<close>

subsection \<open>The Key and Text fields of the resolved definition\<close>

lemma Key_keyDefinitionFromKey:
  "findSrcKeyDef k key = (src, shift, foundInShift) \<Longrightarrow>
   Key (keyDefinitionFromKey k key) =
     (if (isKeyX key \<or> foundInShift) \<and> shift \<noteq> 0 \<and> ShiftKey src \<noteq> '''' then ShiftKey src
      else Key src)"
  by (simp add: keyDefinitionFromKey_def Let_def zeroKeyDefinition_def if_distrib [of Key])

lemma Text_keyDefinitionFromKey:
  "findSrcKeyDef k key = (src, shift, foundInShift) \<Longrightarrow>
   Text (keyDefinitionFromKey k key) =
     (if modifiers k AND NOT ModifierKeyShift \<noteq> 0 then ''''
      else if (isKeyX key \<or> foundInShift) \<and> shift \<noteq> 0 \<and> ShiftKey src \<noteq> '''' then ShiftKey src
      else if Text src \<noteq> '''' then Text src
      else if length (Key src) = 1 then Key src else '''')"
  by (simp add: keyDefinitionFromKey_def Let_def zeroKeyDefinition_def if_distrib [of Text])

lemma findSrcKeyDef_shift:
  "findSrcKeyDef k key = (src, shift, foundInShift) \<Longrightarrow>
   (foundInShift \<longleftrightarrow> map_of (Keys (layout k)) key = None \<and> \<not> snd (KeyDefinition (layout k) key))
   \<and> shift = (if foundInShift then modifiers k OR ModifierKeyShift
               else modifiers k AND ModifierKeyShift)"
  by (auto simp: findSrcKeyDef_def Let_def split: option.splits prod.splits if_splits)

lemma Key_keyDefinitionFromKey_r1:
  "findSrcKeyDef_r1 G k key = (keyString, src, shift) \<Longrightarrow>
   Key (keyDefinitionFromKey_r1 G k key) =
     (if shift \<noteq> 0 \<and> ShiftKey src \<noteq> '''' then ShiftKey src else Key src)"
  by (simp add: keyDefinitionFromKey_r1_def Let_def zeroKeyDefinition_def if_distrib [of Key])

lemma Text_keyDefinitionFromKey_r1:
  "findSrcKeyDef_r1 G k key = (keyString, src, shift) \<Longrightarrow>
   Text (keyDefinitionFromKey_r1 G k key) =
     (if modifiers k AND NOT ModifierKeyShift \<noteq> 0 then ''''
      else if shift \<noteq> 0 \<and> ShiftKey src \<noteq> '''' then ShiftKey src
      else if Text src \<noteq> '''' then Text src
      else if length (Key src) = 1 then Key src else '''')"
  by (simp add: keyDefinitionFromKey_r1_def Let_def zeroKeyDefinition_def if_distrib [of Text])

lemma findSrcKeyDef_r1_shift:
  "findSrcKeyDef_r1 G k key = (keyString, src, shift) \<Longrightarrow>
   shift = (if map_of (Keys (G (layoutName k))) key \<noteq> None
               \<or> snd (snd (keyLoop_r1 (Keys (G (layoutName k))) (key, zeroKeyDefinition, False)))
            then modifiers k AND ModifierKeyShift
            else modifiers k OR ModifierKeyShift)"
  by (auto simp: findSrcKeyDef_r1_def Let_def split: option.splits prod.splits if_splits)

subsection \<open>The example layout, evaluated\<close>

lemma findSrcKeyDef_Digit2:
  "findSrcKeyDef shiftHeldKeyboard ''Digit2'' =
     (zeroKeyDefinition\<lparr>Key := ''2'', KeyCode := 50, ShiftKey := ''@''\<rparr>, 8, False)"
  by (simp add: findSrcKeyDef_def Let_def example_defs)

lemma findSrcKeyDef_r1_Digit2:
  "findSrcKeyDef_r1 exampleRegistry shiftHeldKeyboard ''Digit2'' =
     (''Digit2'', zeroKeyDefinition\<lparr>Key := ''2'', KeyCode := 50, ShiftKey := ''@''\<rparr>, 8)"
  by (simp add: findSrcKeyDef_r1_def Let_def example_defs)

lemma findSrcKeyDef_KeyA:
  "findSrcKeyDef shiftHeldKeyboard ''KeyA'' =
     (zeroKeyDefinition\<lparr>Key := ''a'', KeyCode := 65, ShiftKey := ''A''\<rparr>, 8, False)"
  by (simp add: findSrcKeyDef_def Let_def example_defs)

lemma findSrcKeyDef_r1_KeyA:
  "findSrcKeyDef_r1 exampleRegistry shiftHeldKeyboard ''KeyA'' =
     (''KeyA'', zeroKeyDefinition\<lparr>Key := ''a'', KeyCode := 65, ShiftKey := ''A''\<rparr>, 8)"
  by (simp add: findSrcKeyDef_r1_def Let_def example_defs)

subsection \<open>The shift substitution rule\<close>

text \<open>
  C2, as stated, fails on the first revision of \<^verbatim>\<open>keyDefinitionFromKey\<close>
  (keyboard.go:132): there the shift value replaces Key and Text whenever shift is
  active and the entry has a shift value, whatever the token is. With the Shift bit set,
  the token "Digit2" is found directly in the table, is none of KeyA..KeyZ, and resolves
  to the text "@".
\<close>

theorem keyDefinitionFromKey_r1_Digit2_counterexample:
  "\<not> isKeyX ''Digit2''
   \<and> map_of (Keys (exampleRegistry (layoutName shiftHeldKeyboard))) ''Digit2'' \<noteq> None
   \<and> modifiers shiftHeldKeyboard = ModifierKeyShift
   \<and> Key (keyDefinitionFromKey_r1 exampleRegistry shiftHeldKeyboard ''Digit2'') = ''@''
   \<and> Text (keyDefinitionFromKey_r1 exampleRegistry shiftHeldKeyboard ''Digit2'') = ''@''"
  by (simp add: isKeyX_def keyDefinitionFromKey_r1_def findSrcKeyDef_r1_def Let_def example_defs)

text \<open>
  C2, amended. In the second revision of \<^verbatim>\<open>keyDefinitionFromKey\<close> (keyboard.go:475),
  with \<open>src\<close> the entry found, \<open>foundInShift\<close> true exactly when neither the table nor the
  lookup by unmodified value has the token, and \<open>shift\<close> the Shift bit of the modifiers
  (forced on when \<open>foundInShift\<close>): the resulting Key is the entry's ShiftKey exactly
  when (the token is one of KeyA..KeyZ or \<open>foundInShift\<close>) and \<open>shift\<close> is set and the
  ShiftKey is not empty, and the entry's Key otherwise; the resulting Text is the
  ShiftKey under the same condition (unless a modifier other than Shift empties it).
  So with Shift held the key for "2" resolves to the text "2", and a key KeyA..KeyZ
  resolves to its shift Key and Text. In the first revision (keyboard.go:132) the
  ShiftKey is used whenever \<open>shift\<close> is set (or forced by the search of the shift values)
  and the ShiftKey is not empty, for every token.
\<close>

theorem keyDefinitionFromKey_shift_rule:
  assumes "findSrcKeyDef k key = (src, shift, foundInShift)"
    and "findSrcKeyDef_r1 G k key = (keyString, src1, shift1)"
  shows "(foundInShift \<longleftrightarrow>
            map_of (Keys (layout k)) key = None \<and> \<not> snd (KeyDefinition (layout k) key))
    \<and> shift = (if foundInShift then modifiers k OR ModifierKeyShift
                else modifiers k AND ModifierKeyShift)
    \<and> Key (keyDefinitionFromKey k key) =
         (if (isKeyX key \<or> foundInShift) \<and> shift \<noteq> 0 \<and> ShiftKey src \<noteq> ''''
          then ShiftKey src else Key src)
    \<and> Text (keyDefinitionFromKey k key) =
         (if modifiers k AND NOT ModifierKeyShift \<noteq> 0 then ''''
          else if (isKeyX key \<or> foundInShift) \<and> shift \<noteq> 0 \<and> ShiftKey src \<noteq> ''''
          then ShiftKey src
          else if Text src \<noteq> '''' then Text src
          else if length (Key src) = 1 then Key src else '''')
    \<and> shift1 =
         (if map_of (Keys (G (layoutName k))) key \<noteq> None
             \<or> snd (snd (keyLoop_r1 (Keys (G (layoutName k))) (key, zeroKeyDefinition, False)))
          then modifiers k AND ModifierKeyShift
          else modifiers k OR ModifierKeyShift)
    \<and> Key (keyDefinitionFromKey_r1 G k key) =
         (if shift1 \<noteq> 0 \<and> ShiftKey src1 \<noteq> '''' then ShiftKey src1 else Key src1)
    \<and> Text (keyDefinitionFromKey_r1 G k key) =
         (if modifiers k AND NOT ModifierKeyShift \<noteq> 0 then ''''
          else if shift1 \<noteq> 0 \<and> ShiftKey src1 \<noteq> '''' then ShiftKey src1
          else if Text src1 \<noteq> '''' then Text src1
          else if length (Key src1) = 1 then Key src1 else '''')"
  using findSrcKeyDef_shift [OF assms(1)] Key_keyDefinitionFromKey [OF assms(1)]
    Text_keyDefinitionFromKey [OF assms(1)] findSrcKeyDef_r1_shift [OF assms(2)]
    Key_keyDefinitionFromKey_r1 [OF assms(2)] Text_keyDefinitionFromKey_r1 [OF assms(2)]
  by (intro conjI) blast+

theorem keyDefinitionFromKey_shift_rule_witness:
  "Key (keyDefinitionFromKey shiftHeldKeyboard ''Digit2'') = ''2''
   \<and> Text (keyDefinitionFromKey shiftHeldKeyboard ''Digit2'') = ''2''
   \<and> Key (keyDefinitionFromKey shiftHeldKeyboard ''KeyA'') = ''A''
   \<and> Text (keyDefinitionFromKey shiftHeldKeyboard ''KeyA'') = ''A''
   \<and> Key (keyDefinitionFromKey_r1 exampleRegistry shiftHeldKeyboard ''KeyA'') = ''A''
   \<and> Text (keyDefinitionFromKey_r1 exampleRegistry shiftHeldKeyboard ''KeyA'') = ''A''"
proof -
  note d = keyDefinitionFromKey_shift_rule [OF findSrcKeyDef_Digit2 findSrcKeyDef_r1_Digit2]
  note a = keyDefinitionFromKey_shift_rule [OF findSrcKeyDef_KeyA findSrcKeyDef_r1_KeyA]
  note dKey = d [THEN conjunct2, THEN conjunct2, THEN conjunct1]
  note dText = d [THEN conjunct2, THEN conjunct2, THEN conjunct2, THEN conjunct1]
  note aKey = a [THEN conjunct2, THEN conjunct2, THEN conjunct1]
  note aText = a [THEN conjunct2, THEN conjunct2, THEN conjunct2, THEN conjunct1]
  note aKey1 = a [THEN conjunct2, THEN conjunct2, THEN conjunct2, THEN conjunct2,
      THEN conjunct2, THEN conjunct1]
  note aText1 = a [THEN conjunct2, THEN conjunct2, THEN conjunct2, THEN conjunct2,
      THEN conjunct2, THEN conjunct2]
  have x: "\<not> isKeyX ''Digit2''" "isKeyX ''KeyA''"
    by (simp_all add: isKeyX_def)
  have m: "modifiers shiftHeldKeyboard AND NOT ModifierKeyShift = 0"
    by (simp add: shiftHeldKeyboard_def ModifierKeyShift_def)
  from x m dKey dText aKey aText aKey1 aText1 show ?thesis
    by (simp add: zeroKeyDefinition_def)
qed

section \<open>Modifier state in the first revision\<close>

text \<open>
  C5 on the first revision: \<^verbatim>\<open>down\<close> at keyboard.go:65 updates the modifiers with
  \<^verbatim>\<open>k.modifiers &= ^bit\<close>, the statement of \<^verbatim>\<open>up\<close>. On a new keyboard, "Shift" is a
  valid key that resolves to the key name "Shift"; the call succeeds and the Shift bit is
  not set, while \<^verbatim>\<open>down\<close> of the second revision (keyboard.go:410) sets it.
\<close>

theorem down_r1_Shift_not_set:
  "''Shift'' \<in> ValidKeys (exampleRegistry (layoutName exampleKeyboard))
   \<and> Key (keyDefinitionFromKey_r1 exampleRegistry exampleKeyboard ''Shift'') = ''Shift''
   \<and> snd (down_r1 exampleRegistry exampleKeyboard ''Shift'') = None
   \<and> modifiers (fst (down_r1 exampleRegistry exampleKeyboard ''Shift'')) = 0
   \<and> modifiers (fst (down exampleKeyboard ''Shift'')) = ModifierKeyShift"
  by (simp add: down_r1_def down_def Do_def keyDefinitionFromKey_r1_def findSrcKeyDef_r1_def
      keyDefinitionFromKey_def findSrcKeyDef_def Let_def example_defs modifierBitFromKeyName_def)

section \<open>Properties of the argument conversion\<close>

text \<open>
  C7. For every handle and calling context, \<^verbatim>\<open>convertBaseJSHandleTypes\<close> gives the
  WrongExecutionContext error when the handle's context differs from the calling one,
  whether or not the handle is disposed; otherwise the HandleDisposed error when the
  handle is disposed; otherwise one call argument with exactly one field taken from the
  handle and the other two empty: the unserializable value when the handle has one, else
  the inline value when the handle has no object id, else the object id.
\<close>

theorem convertBaseJSHandleTypes_order:
  "(execCtx h \<noteq> ctx \<longrightarrow>
      convertBaseJSHandleTypes ctx h = (None, Some ErrWrongExecutionContext))
   \<and> (execCtx h = ctx \<and> disposed h \<longrightarrow>
      convertBaseJSHandleTypes ctx h = (None, Some ErrJSHandleDisposed))
   \<and> (execCtx h = ctx \<and> \<not> disposed h \<and> roUnserializableValue (remoteObject h) \<noteq> '''' \<longrightarrow>
      convertBaseJSHandleTypes ctx h =
        (Some \<lparr>Value = '''', UnserializableValue = roUnserializableValue (remoteObject h),
               ObjectID = ''''\<rparr>, None))
   \<and> (execCtx h = ctx \<and> \<not> disposed h \<and> roUnserializableValue (remoteObject h) = ''''
        \<and> roObjectID (remoteObject h) = '''' \<longrightarrow>
      convertBaseJSHandleTypes ctx h =
        (Some \<lparr>Value = roValue (remoteObject h), UnserializableValue = '''', ObjectID = ''''\<rparr>,
         None))
   \<and> (execCtx h = ctx \<and> \<not> disposed h \<and> roUnserializableValue (remoteObject h) = ''''
        \<and> roObjectID (remoteObject h) \<noteq> '''' \<longrightarrow>
      convertBaseJSHandleTypes ctx h =
        (Some \<lparr>Value = '''', UnserializableValue = '''',
               ObjectID = roObjectID (remoteObject h)\<rparr>, None))"
  by (simp add: convertBaseJSHandleTypes_def zeroCallArgument_def)

theorem convertBaseJSHandleTypes_order_witness:
  "convertBaseJSHandleTypes 2 exampleHandle = (None, Some ErrWrongExecutionContext)
   \<and> convertBaseJSHandleTypes 1 exampleHandle = (None, Some ErrJSHandleDisposed)
   \<and> convertBaseJSHandleTypes 1 (exampleHandle\<lparr>disposed := False\<rparr>) =
       (Some \<lparr>Value = '''', UnserializableValue = ''NaN'', ObjectID = ''''\<rparr>, None)
   \<and> convertBaseJSHandleTypes 1
         (exampleHandle\<lparr>disposed := False,
            remoteObject := \<lparr>roValue = ''5'', roUnserializableValue = '''', roObjectID = ''''\<rparr>\<rparr>) =
       (Some \<lparr>Value = ''5'', UnserializableValue = '''', ObjectID = ''''\<rparr>, None)
   \<and> convertBaseJSHandleTypes 1
         (exampleHandle\<lparr>disposed := False,
            remoteObject := \<lparr>roValue = ''5'', roUnserializableValue = '''', roObjectID = ''obj-1''\<rparr>\<rparr>) =
       (Some \<lparr>Value = '''', UnserializableValue = '''', ObjectID = ''obj-1''\<rparr>, None)"
  using convertBaseJSHandleTypes_order [of exampleHandle 2]
    convertBaseJSHandleTypes_order [of exampleHandle 1]
    convertBaseJSHandleTypes_order [of "exampleHandle\<lparr>disposed := False\<rparr>" 1]
    convertBaseJSHandleTypes_order [of "exampleHandle\<lparr>disposed := False,
        remoteObject := \<lparr>roValue = ''5'', roUnserializableValue = '''', roObjectID = ''''\<rparr>\<rparr>" 1]
    convertBaseJSHandleTypes_order [of "exampleHandle\<lparr>disposed := False,
        remoteObject := \<lparr>roValue = ''5'', roUnserializableValue = '''', roObjectID = ''obj-1''\<rparr>\<rparr>" 1]
  by (simp add: exampleHandle_def)

subsection \<open>Floats that compare equal to negative zero\<close>

lemma zeros_are_no_NaN: "\<not> math_IsNaN 0" "\<not> math_IsNaN 0x8000000000000000"
  by (simp_all add: math_IsNaN_def)

lemma float_eq_negative_zero: "float_eq f 0x8000000000000000 \<longleftrightarrow> isZero f"
  by (auto simp: float_eq_def isZero_def zeros_are_no_NaN)

lemma float_eq_positive_zero: "float_eq f 0 \<longleftrightarrow> isZero f"
  by (auto simp: float_eq_def isZero_def zeros_are_no_NaN)

text \<open>
  C4 at positive zero: the float +0.0 (all 64 bits zero, which is not the bit pattern of
  negative zero) is none of NaN, negative zero and the infinities, and
  \<^verbatim>\<open>convertArgument\<close> returns the unserializable value "-0" for it, not a plain value
  with the JSON encoding of 0.
\<close>

theorem convertArgument_positive_zero:
  "(0 :: float64) \<noteq> math_Float64frombits (0 OR push_bit 63 1)
   \<and> \<not> math_IsNaN 0 \<and> (0 :: float64) \<noteq> math_Inf 0 \<and> (0 :: float64) \<noteq> math_Inf (- 1)
   \<and> convertArgument Marshal ctx (Float64Value 0) =
       (Some \<lparr>Value = '''', UnserializableValue = ''-0'', ObjectID = ''''\<rparr>, None)"
  by (simp add: convertArgument_def math_Float64frombits_def float_eq_negative_zero isZero_def
      zeroCallArgument_def zeros_are_no_NaN math_Inf_def)

text \<open>
  C9. Positive zero compares equal to the negative zero that \<^verbatim>\<open>convertArgument\<close> tests
  for, so \<^verbatim>\<open>convertArgument\<close> of the float +0.0 is the unserializable value "-0"; and
  every float that compares equal to zero is converted to that unserializable value, so
  none is converted to a plain value.
\<close>

theorem convertArgument_zero_floats:
  "float_eq 0 (math_Float64frombits (0 OR push_bit 63 1))
   \<and> convertArgument Marshal ctx (Float64Value 0) =
       (Some \<lparr>Value = '''', UnserializableValue = ''-0'', ObjectID = ''''\<rparr>, None)
   \<and> (float_eq f 0 \<longrightarrow>
        convertArgument Marshal ctx (Float64Value f) =
          (Some \<lparr>Value = '''', UnserializableValue = ''-0'', ObjectID = ''''\<rparr>, None))"
  by (simp add: convertArgument_def math_Float64frombits_def float_eq_negative_zero
      float_eq_positive_zero isZero_def zeroCallArgument_def)

theorem convertArgument_zero_floats_witness:
  "float_eq 0x8000000000000000 0
   \<and> convertArgument exampleMarshal 0 (Float64Value 0x8000000000000000) =
       (Some \<lparr>Value = '''', UnserializableValue = ''-0'', ObjectID = ''''\<rparr>, None)
   \<and> float_eq 0 0
   \<and> convertArgument exampleMarshal 0 (Float64Value 0) =
       (Some \<lparr>Value = '''', UnserializableValue = ''-0'', ObjectID = ''''\<rparr>, None)"
  using convertArgument_zero_floats [of exampleMarshal 0 "0x8000000000000000"]
    convertArgument_zero_floats [of exampleMarshal 0 0]
  by (simp add: float_eq_positive_zero isZero_def)

section \<open>Properties of the calls with a timeout and of the waits\<close>

text \<open>
  C10. When the first thing the \<^verbatim>\<open>select\<close> of \<^verbatim>\<open>callApiWithTimeout\<close> sees is the
  cancellation of the caller's context (\<^verbatim>\<open>context.Canceled\<close>), before any result or
  error of the inner function, the call returns a nil result and \<^verbatim>\<open>ErrTimedOut\<close>; when
  it is the expiry of its own deadline (\<^verbatim>\<open>context.DeadlineExceeded\<close>, which exists
  when \<^verbatim>\<open>timeout > 0\<close>), or the expiry of a deadline of the caller's context, the call
  returns a nil result and a nil error.
\<close>

theorem callApiWithTimeout_exits:
  "callApiWithTimeout timeout (CallerDone Canceled # rest) = Some (None, Some ErrTimedOut)
   \<and> (timeout > 0 \<longrightarrow> callApiWithTimeout timeout (OwnDeadline # rest) = Some (None, None))
   \<and> callApiWithTimeout timeout (CallerDone DeadlineExceeded # rest) = Some (None, None)"
  by simp

theorem callApiWithTimeout_exits_witness:
  "callApiWithTimeout 5 [CallerDone Canceled, FnResult (Some (1::nat))]
     = Some (None, Some ErrTimedOut)
   \<and> callApiWithTimeout 5 [OwnDeadline, FnResult (Some (1::nat))] = Some (None, None)"
  using callApiWithTimeout_exits [of 5 "[FnResult (Some (1::nat))]"]
  by simp

lemma waitForEvent_skip:
  "\<forall>ev \<in> set pre. \<not> stringSliceContains events (evTyp ev) \<Longrightarrow>
   waitForEvent events p (map Emitted pre @ xs) = waitForEvent events p xs"
  by (induction pre) (simp_all add: handleEvent_def)

text \<open>
  C1, as stated, fails. With no predicate, a wait for events of type "x" that observes an
  event of type "x" with payload 7 returns nil, not the payload. With the predicate
  "the payload is 2", a wait that observes an event of type "x" with payload 1 returns at
  once with a nil value and a nil error: it does not go on to the later event with
  payload 2, and does not end in a timeout when the timer fires with no qualifying event
  seen.
\<close>

theorem waitForEvent_counterexample:
  "waitForEvent [''x''] None [Emitted \<lparr>evTyp = ''x'', evData = Some (7::nat)\<rparr>, TimerFires]
     = Some (None, None)
   \<and> waitForEvent [''x''] (Some isTwo)
       [Emitted \<lparr>evTyp = ''x'', evData = Some 1\<rparr>, Emitted \<lparr>evTyp = ''x'', evData = Some 2\<rparr>,
        TimerFires] = Some (None, None)
   \<and> waitForEvent [''x''] (Some isTwo)
       [Emitted \<lparr>evTyp = ''x'', evData = Some 1\<rparr>, TimerFires] = Some (None, None)"
  by (simp add: handleEvent_def isTwo_def)

text \<open>
  C1, amended. Let the wait first observe any number of events whose types are not in
  \<^verbatim>\<open>eventTypes\<close>. If the timer fires next, the call returns the TimedOut failure; if
  the caller's context is cancelled next, it returns nil and no error. If an event of a
  listed type comes next and a predicate is given and holds on its payload, the call
  returns that payload and no error; if no predicate is given, the call returns nil and
  no error. In each case whatever is observed afterwards has no effect on the result: no
  second event is delivered to the call.
\<close>

theorem waitForEvent_first_listed:
  assumes "\<forall>ev \<in> set pre. \<not> stringSliceContains events (evTyp ev)"
  shows "waitForEvent events p (map Emitted pre @ TimerFires # rest)
           = Some (None, Some ErrTimedOut)
    \<and> waitForEvent events p (map Emitted pre @ CallerCancelled # rest) = Some (None, None)
    \<and> (stringSliceContains events (evTyp ev) \<and> q (evData ev) \<longrightarrow>
          waitForEvent events (Some q) (map Emitted pre @ Emitted ev # rest)
            = Some (evData ev, None))
    \<and> (stringSliceContains events (evTyp ev) \<longrightarrow>
          waitForEvent events None (map Emitted pre @ Emitted ev # rest) = Some (None, None))"
  by (simp add: waitForEvent_skip [OF assms] handleEvent_def)

theorem waitForEvent_first_listed_witness:
  "waitForEvent [''x''] (Some isTwo)
      [Emitted \<lparr>evTyp = ''y'', evData = Some 2\<rparr>, TimerFires] = Some (None, Some ErrTimedOut)
   \<and> waitForEvent [''x''] (Some isTwo)
      [Emitted \<lparr>evTyp = ''y'', evData = Some 2\<rparr>, Emitted \<lparr>evTyp = ''x'', evData = Some 2\<rparr>,
       Emitted \<lparr>evTyp = ''x'', evData = Some 2\<rparr>, TimerFires] = Some (Some 2, None)
   \<and> waitForEvent [''x''] None
      [Emitted \<lparr>evTyp = ''y'', evData = Some (2::nat)\<rparr>, Emitted \<lparr>evTyp = ''x'', evData = Some 2\<rparr>]
       = Some (None, None)"
  using waitForEvent_first_listed [where pre = "[\<lparr>evTyp = ''y'', evData = Some 2\<rparr>]"
      and events = "[''x'']" and p = "Some isTwo" and rest = "[]"]
    waitForEvent_first_listed [where pre = "[\<lparr>evTyp = ''y'', evData = Some 2\<rparr>]"
      and events = "[''x'']" and ev = "\<lparr>evTyp = ''x'', evData = Some 2\<rparr>" and q = isTwo
      and rest = "[Emitted \<lparr>evTyp = ''x'', evData = Some 2\<rparr>, TimerFires]"]
    waitForEvent_first_listed [where pre = "[\<lparr>evTyp = ''y'', evData = Some (2::nat)\<rparr>]"
      and events = "[''x'']" and ev = "\<lparr>evTyp = ''x'', evData = Some 2\<rparr>" and rest = "[]"]
  by (simp add: isTwo_def)

section \<open>Properties of the aborted navigation\<close>

text \<open>
  C8. For every frame of the frame manager whose pending document is not nil, processing
  an aborted navigation for that document's id emits exactly one more event, by that
  frame, whose \<^verbatim>\<open>newDocument\<close> is the pending document the frame had (so it is not nil
  and has the same document id) and which carries the error; after it the frame is still
  there and its pending document is nil.
\<close>

theorem frameAbortedNavigation_emits_pending:
  assumes "frames m frameID = Some frame" and "pendingDocument frame = Some doc"
  shows "\<exists>ne frame'.
      emitted (frameAbortedNavigation m frameID errorText (documentID doc))
        = emitted m @ [(frameID, ne)]
      \<and> newDocument ne = Some doc
      \<and> map_option documentID (newDocument ne) = Some (documentID doc)
      \<and> navError ne = Some errorText
      \<and> frames (frameAbortedNavigation m frameID errorText (documentID doc)) frameID
          = Some frame'
      \<and> pendingDocument frame' = None"
  using assms by (simp add: frameAbortedNavigation_def Let_def)

theorem frameAbortedNavigation_emits_pending_witness:
  "\<exists>ne frame'.
      emitted (frameAbortedNavigation testFrameManager ''42'' ''any error'' ''42'')
        = [(''42'', ne)]
      \<and> newDocument ne = Some \<lparr>documentID = ''42''\<rparr>
      \<and> map_option documentID (newDocument ne) = Some ''42''
      \<and> navError ne = Some ''any error''
      \<and> frames (frameAbortedNavigation testFrameManager ''42'' ''any error'' ''42'') ''42''
          = Some frame'
      \<and> pendingDocument frame' = None"
  using frameAbortedNavigation_emits_pending [of testFrameManager "''42''"
      "\<lparr>pendingDocument = Some \<lparr>documentID = ''42''\<rparr>\<rparr>" "\<lparr>documentID = ''42''\<rparr>" "''any error''"]
  by (simp add: testFrameManager_def)

section \<open>Further properties\<close>

subsection \<open>Modifier state in the second revision\<close>

lemma bit_after_OR: "(m OR b) AND b = (b :: 64 word)"
  by (auto simp: bit_eq_iff bit_and_iff bit_or_iff)

lemma bit_after_AND_NOT: "(m AND NOT b) AND b = (0 :: 64 word)"
  by (simp add: bit_eq_iff bit_and_iff bit_not_iff)

lemma modifierBit_zero_iff:
  "modifierBitFromKeyName n = 0 \<longleftrightarrow> n \<notin> {''Alt'', ''Control'', ''Meta'', ''Shift''}"
  by (simp add: modifierBitFromKeyName_def ModifierKeyAlt_def ModifierKeyControl_def
      ModifierKeyMeta_def ModifierKeyShift_def)

text \<open>
  In the second revision, for a valid key whose resolved definition has the key name
  n: \<^verbatim>\<open>down\<close> sets the modifier bit of n and \<^verbatim>\<open>up\<close> clears it, whether or not the
  session accepts the command; when n is none of "Alt", "Control", "Meta" and "Shift",
  both leave the modifiers as they were.
\<close>

theorem down_up_modifiers:
  assumes "key \<in> ValidKeys (layout k)"
  shows "modifiers (fst (down k key)) =
           modifiers k OR modifierBitFromKeyName (Key (keyDefinitionFromKey k key))
    \<and> modifiers (fst (down k key)) AND modifierBitFromKeyName (Key (keyDefinitionFromKey k key))
        = modifierBitFromKeyName (Key (keyDefinitionFromKey k key))
    \<and> modifiers (fst (up k key)) =
           modifiers k AND NOT (modifierBitFromKeyName (Key (keyDefinitionFromKey k key)))
    \<and> modifiers (fst (up k key)) AND modifierBitFromKeyName (Key (keyDefinitionFromKey k key)) = 0
    \<and> (Key (keyDefinitionFromKey k key) \<notin> {''Alt'', ''Control'', ''Meta'', ''Shift''} \<longrightarrow>
          modifiers (fst (down k key)) = modifiers k \<and> modifiers (fst (up k key)) = modifiers k)"
  using assms
  by (simp add: down_valid up_valid Let_def bit_after_OR bit_after_AND_NOT
      modifierBit_zero_iff [symmetric] del: insert_iff)

lemma keyDefinitionFromKey_Shift:
  "Key (keyDefinitionFromKey exampleKeyboard ''Shift'') = ''Shift''"
  "Key (keyDefinitionFromKey shiftHeldKeyboard ''Shift'') = ''Shift''"
  "Key (keyDefinitionFromKey shiftHeldKeyboard ''KeyA'') = ''A''"
  by (simp_all add: keyDefinitionFromKey_def findSrcKeyDef_def Let_def example_defs isKeyX_def)

theorem down_up_modifiers_witness:
  "modifiers (fst (down exampleKeyboard ''Shift'')) = 8
   \<and> modifiers (fst (up shiftHeldKeyboard ''Shift'')) = 0
   \<and> modifiers (fst (down shiftHeldKeyboard ''KeyA'')) = 8
   \<and> modifiers (fst (up shiftHeldKeyboard ''KeyA'')) = 8"
proof -
  have v: "''Shift'' \<in> ValidKeys (layout exampleKeyboard)"
    "''Shift'' \<in> ValidKeys (layout shiftHeldKeyboard)"
    "''KeyA'' \<in> ValidKeys (layout shiftHeldKeyboard)"
    by (simp_all add: example_defs)
  have m: "modifiers exampleKeyboard = 0" "modifiers shiftHeldKeyboard = 8"
    by (simp_all add: example_defs)
  from down_up_modifiers [OF v(1)] down_up_modifiers [OF v(2)] down_up_modifiers [OF v(3)]
  show ?thesis
    by (simp add: keyDefinitionFromKey_Shift m modifierBitFromKeyName_def ModifierKeyShift_def)
qed

lemma findSrcKeyDef_same_layout:
  "layout k' = layout k \<Longrightarrow> fst (findSrcKeyDef k' key) = fst (findSrcKeyDef k key)"
  by (simp add: findSrcKeyDef_def Let_def split: option.splits prod.splits)

lemma Key_no_ShiftKey:
  "ShiftKey (fst (findSrcKeyDef k key)) = '''' \<Longrightarrow>
   Key (keyDefinitionFromKey k key) = Key (fst (findSrcKeyDef k key))"
  by (cases "findSrcKeyDef k key") (simp add: Key_keyDefinitionFromKey)

text \<open>
  In the second revision, for a valid key whose table entry has no shift value (as
  the modifier keys), \<^verbatim>\<open>up\<close> after \<^verbatim>\<open>down\<close> of the same key resolves to the same key
  name and clears the bit that \<^verbatim>\<open>down\<close> set.
\<close>

theorem down_then_up_modifiers:
  assumes "key \<in> ValidKeys (layout k)"
    and "ShiftKey (fst (findSrcKeyDef k key)) = ''''"
  shows "modifiers (fst (up (fst (down k key)) key)) =
           (modifiers k OR modifierBitFromKeyName (Key (fst (findSrcKeyDef k key))))
             AND NOT (modifierBitFromKeyName (Key (fst (findSrcKeyDef k key))))"
proof -
  let ?k1 = "fst (down k key)"
  have l: "layout ?k1 = layout k"
    using assms(1) by (simp add: down_valid Let_def)
  have s: "fst (findSrcKeyDef ?k1 key) = fst (findSrcKeyDef k key)"
    by (rule findSrcKeyDef_same_layout [OF l])
  have k1: "Key (keyDefinitionFromKey ?k1 key) = Key (fst (findSrcKeyDef k key))"
    using Key_no_ShiftKey [of ?k1 key] s assms(2) by simp
  have k0: "Key (keyDefinitionFromKey k key) = Key (fst (findSrcKeyDef k key))"
    using Key_no_ShiftKey [OF assms(2)] .
  have v: "key \<in> ValidKeys (layout ?k1)"
    using assms(1) l by simp
  have "modifiers (fst (up ?k1 key)) =
          modifiers ?k1 AND NOT (modifierBitFromKeyName (Key (keyDefinitionFromKey ?k1 key)))"
    using v by (simp add: up_valid Let_def)
  moreover have "modifiers ?k1 =
      modifiers k OR modifierBitFromKeyName (Key (keyDefinitionFromKey k key))"
    using assms(1) by (simp add: down_valid Let_def)
  ultimately show ?thesis
    by (simp only: k1 k0)
qed

theorem down_then_up_modifiers_witness:
  "modifiers (fst (up (fst (down exampleKeyboard ''Shift'')) ''Shift'')) = 0"
proof -
  have v: "''Shift'' \<in> ValidKeys (layout exampleKeyboard)"
    by (simp add: example_defs)
  have s: "fst (findSrcKeyDef exampleKeyboard ''Shift'')
             = zeroKeyDefinition\<lparr>Key := ''Shift'', KeyCode := 160, Location := 1\<rparr>"
    by (simp add: findSrcKeyDef_def Let_def example_defs)
  have e: "ShiftKey (fst (findSrcKeyDef exampleKeyboard ''Shift'')) = ''''"
    by (simp add: s zeroKeyDefinition_def)
  have m: "modifiers exampleKeyboard = 0"
    by (simp add: example_defs)
  from down_then_up_modifiers [OF v e] show ?thesis
    by (simp add: s m modifierBitFromKeyName_def ModifierKeyShift_def)
qed

subsection \<open>Text under other modifiers, invalid keys\<close>

text \<open>
  In both revisions, when a modifier other than Shift is set, the resolved
  definition has an empty text.
\<close>

theorem Text_suppressed:
  "modifiers k AND NOT ModifierKeyShift \<noteq> 0 \<Longrightarrow>
   Text (keyDefinitionFromKey k key) = '''' \<and> Text (keyDefinitionFromKey_r1 G k key) = ''''"
  by (cases "findSrcKeyDef k key", cases "findSrcKeyDef_r1 G k key")
     (simp add: Text_keyDefinitionFromKey Text_keyDefinitionFromKey_r1)

theorem Text_suppressed_witness:
  "Text (keyDefinitionFromKey (exampleKeyboard\<lparr>modifiers := ModifierKeyControl\<rparr>) ''KeyA'') = ''''
   \<and> Text (keyDefinitionFromKey_r1 exampleRegistry
         (exampleKeyboard\<lparr>modifiers := ModifierKeyControl\<rparr>) ''KeyA'') = ''''"
  using Text_suppressed [of "exampleKeyboard\<lparr>modifiers := ModifierKeyControl\<rparr>" "''KeyA''"
      exampleRegistry]
  by (simp add: ModifierKeyControl_def ModifierKeyShift_def)

text \<open>
  In the second revision, \<^verbatim>\<open>down\<close> and \<^verbatim>\<open>up\<close> of a key that is not among the valid
  keys of the layout fail with the error naming the key and the layout, and leave the
  keyboard as it was: no command is sent.
\<close>

theorem invalid_key:
  "key \<notin> ValidKeys (layout k) \<Longrightarrow>
   down k key = (k, Some (NotValidKey key (layoutName k)))
   \<and> up k key = (k, Some (NotValidKey key (layoutName k)))"
  by (simp add: down_def up_def)

theorem invalid_key_witness:
  "down exampleKeyboard ''F13'' = (exampleKeyboard, Some (NotValidKey ''F13'' ''us''))
   \<and> up exampleKeyboard ''F13'' = (exampleKeyboard, Some (NotValidKey ''F13'' ''us''))"
  using invalid_key [of "''F13''" exampleKeyboard]
  by (simp add: example_defs)

subsection \<open>What split keeps of its input\<close>

lemma joinPlus_snoc: "joinPlus (kk @ [s]) @ [r] = joinPlus (kk @ [s @ [r]])"
  by (induction kk rule: joinPlus.induct) auto

lemma joinPlus_snoc_empty: "joinPlus (kk @ [s]) @ ''+'' = joinPlus ((kk @ [s]) @ [''''])"
  by (induction kk rule: joinPlus.induct) auto

lemma split_loop_join: "joinPlus (split_loop rs kk s) = joinPlus (kk @ [s]) @ rs"
proof (induction rs arbitrary: kk s)
  case Nil
  show ?case by simp
next
  case (Cons r rs)
  show ?case
  proof (cases "r = CHR ''+'' \<and> s \<noteq> []")
    case True
    then show ?thesis
      using Cons.IH [of "kk @ [s]" "[]"] joinPlus_snoc_empty [of kk s] by simp
  next
    case False
    then have "split_loop (r # rs) kk s = split_loop rs kk (s @ [r])" by auto
    then show ?thesis
      using Cons.IH [of kk "s @ [r]"] joinPlus_snoc [of kk s r] by simp
  qed
qed

lemma split_loop_nonempty:
  "\<forall>s' \<in> set kk. s' \<noteq> [] \<Longrightarrow> \<forall>s' \<in> set (butlast (split_loop rs kk s)). s' \<noteq> []"
proof (induction rs arbitrary: kk s)
  case Nil
  then show ?case by simp
next
  case (Cons r rs)
  show ?case
  proof (cases "r = CHR ''+'' \<and> s \<noteq> []")
    case True
    with Cons.prems have "\<forall>s' \<in> set (kk @ [s]). s' \<noteq> []" by simp
    from Cons.IH [OF this] True show ?thesis by simp
  next
    case False
    then have "split_loop (r # rs) kk s = split_loop rs kk (s @ [r])" by auto
    with Cons.IH [OF Cons.prems] show ?thesis by simp
  qed
qed

lemma split_loop_not_Nil: "split_loop rs kk s \<noteq> []"
  by (induction rs arbitrary: kk s) auto

text \<open>
  \<^verbatim>\<open>split\<close> loses nothing but separators: joining its segments with a plus sign
  between neighbours gives the input back; it always returns at least one segment.
\<close>

theorem split_join: "joinPlus (split keys) = keys \<and> split keys \<noteq> []"
  by (simp add: split_def split_loop_join split_loop_not_Nil)

text \<open>Every segment that \<^verbatim>\<open>split\<close> returns, except possibly the last, is not empty.\<close>

theorem split_segments: "\<forall>s \<in> set (butlast (split keys)). s \<noteq> []"
  using split_loop_nonempty [of "[]" keys "[]"] by (simp add: split_def)

theorem split_segments_witness:
  "butlast (split ''a++b+'') = [''a'', ''+b''] \<and> ''a'' \<noteq> [] \<and> ''+b'' \<noteq> []"
  using split_segments [of "''a++b+''"] by (simp add: split_def)

subsection \<open>The tokens of convertArgument\<close>

lemma infinities:
  "math_Inf 0 = 0x7FF0000000000000" "math_Inf (- 1) = 0xFFF0000000000000"
  "\<not> math_IsNaN 0x7FF0000000000000" "\<not> math_IsNaN 0xFFF0000000000000"
  "\<not> isZero 0x7FF0000000000000" "\<not> isZero 0xFFF0000000000000"
  by (simp_all add: math_Inf_def math_IsNaN_def isZero_def)

lemma formatInt_2147483648: "formatInt 2147483648 = ''2147483648''"
  by (simp add: formatInt_def decimalNat.simps digit_def)

text \<open>
  \<^verbatim>\<open>convertArgument\<close> gives the unserializable value "-0" for negative zero,
  "Infinity" and "-Infinity" for the two infinities, "NaN" for every NaN, and for every
  integer above the 32-bit signed maximum its decimal digits followed by "n"
  ("2147483648n" for 2147483648); an integer up to that maximum, and a float that is
  none of NaN, a zero and an infinity, becomes a plain value holding what
  \<^verbatim>\<open>json.Marshal\<close> returns for it.
\<close>

theorem convertArgument_tokens:
  "convertArgument Marshal ctx (Float64Value 0x8000000000000000) =
     (Some \<lparr>Value = '''', UnserializableValue = ''-0'', ObjectID = ''''\<rparr>, None)
   \<and> convertArgument Marshal ctx (Float64Value (math_Inf 0)) =
     (Some \<lparr>Value = '''', UnserializableValue = ''Infinity'', ObjectID = ''''\<rparr>, None)
   \<and> convertArgument Marshal ctx (Float64Value (math_Inf (- 1))) =
     (Some \<lparr>Value = '''', UnserializableValue = ''-Infinity'', ObjectID = ''''\<rparr>, None)
   \<and> (math_IsNaN f \<longrightarrow> convertArgument Marshal ctx (Float64Value f) =
     (Some \<lparr>Value = '''', UnserializableValue = ''NaN'', ObjectID = ''''\<rparr>, None))
   \<and> (i > math_MaxInt32 \<longrightarrow> convertArgument Marshal ctx (Int64Value i) =
     (Some \<lparr>Value = '''', UnserializableValue = formatInt i @ ''n'', ObjectID = ''''\<rparr>, None))
   \<and> convertArgument Marshal ctx (Int64Value 2147483648) =
     (Some \<lparr>Value = '''', UnserializableValue = ''2147483648n'', ObjectID = ''''\<rparr>, None)
   \<and> (i \<le> math_MaxInt32 \<longrightarrow> convertArgument Marshal ctx (Int64Value i) =
     (Some \<lparr>Value = fst (Marshal (GoInt64 i)), UnserializableValue = '''', ObjectID = ''''\<rparr>,
      snd (Marshal (GoInt64 i))))
   \<and> (\<not> math_IsNaN f \<and> \<not> isZero f \<and> f \<noteq> math_Inf 0 \<and> f \<noteq> math_Inf (- 1) \<longrightarrow>
       convertArgument Marshal ctx (Float64Value f) =
     (Some \<lparr>Value = fst (Marshal (GoFloat64 f)), UnserializableValue = '''', ObjectID = ''''\<rparr>,
      snd (Marshal (GoFloat64 f))))"
  by (auto simp: convertArgument_def math_Float64frombits_def float_eq_negative_zero
      float_eq_def isZero_def infinities zeros_are_no_NaN formatInt_2147483648
      math_MaxInt32_def zeroCallArgument_def split: prod.splits)

theorem convertArgument_tokens_witness:
  "convertArgument exampleMarshal 0 (Float64Value 0x7FF8000000000001) =
     (Some \<lparr>Value = '''', UnserializableValue = ''NaN'', ObjectID = ''''\<rparr>, None)
   \<and> convertArgument exampleMarshal 0 (Int64Value 2147483648) =
     (Some \<lparr>Value = '''', UnserializableValue = ''2147483648n'', ObjectID = ''''\<rparr>, None)
   \<and> convertArgument exampleMarshal 0 (Int64Value 2147483647) =
     (Some \<lparr>Value = ''2147483647'', UnserializableValue = '''', ObjectID = ''''\<rparr>, None)
   \<and> convertArgument exampleMarshal 0 (Float64Value 0x3FF0000000000000) =
     (Some \<lparr>Value = ''<float>'', UnserializableValue = '''', ObjectID = ''''\<rparr>, None)"
  using convertArgument_tokens [of exampleMarshal 0 "0x7FF8000000000001" 2147483648]
    convertArgument_tokens [of exampleMarshal 0 "0x3FF0000000000000" 2147483647]
  by (simp add: math_IsNaN_def isZero_def math_Inf_def math_MaxInt32_def exampleMarshal_def
      formatInt_def decimalNat.simps digit_def)

end
